theory Spec2Isabelle
  imports Complex_Main
begin

section \<open>The constants module\<close>

text \<open>
  \<^verbatim>\<open>client.py\<close> imports its tables and endpoints from \<^verbatim>\<open>lingvatrans.constants\<close>.
  The client only ever tests membership in \<^verbatim>\<open>LANGUAGES\<close> and looks keys up in
  \<^verbatim>\<open>ALPHA1_TO_FULL\<close> and \<^verbatim>\<open>LANGCODES\<close>, so the first is a set of full codes and the
  other two are dictionaries. Every function below takes the module as a parameter, hence
  every theorem holds for whatever the tables contain.
\<close>

record constants =
  TRANSLATE_URL :: string
  GET_LANGUAGES_URL :: string
  LANGUAGES :: "string set"
  LANGCODES :: "string \<rightharpoonup> string"
  ALPHA1_TO_FULL :: "string \<rightharpoonup> string"

text \<open>
  A small instance used to run the functions on concrete inputs. Its language entries are
  the codes and names that the docstrings of \<^verbatim>\<open>client.py\<close> give as examples; the two
  URLs stand for the endpoints on the host that the module docstring names.
\<close>

definition sample_constants :: constants where
  "sample_constants =
     \<lparr> TRANSLATE_URL = ''https://api-b2b.backenster.com/b1/api/v3/translate'',
       GET_LANGUAGES_URL = ''https://api-b2b.backenster.com/b1/api/v3/getLanguages'',
       LANGUAGES = {''en_US'', ''fr_FR''},
       LANGCODES = [''english'' \<mapsto> ''en_US'', ''french'' \<mapsto> ''fr_FR''],
       ALPHA1_TO_FULL = [''en'' \<mapsto> ''en_US'', ''fr'' \<mapsto> ''fr_FR''] \<rparr>"

section \<open>Python values and exceptions\<close>

text \<open>
  What \<^verbatim>\<open>resp.json(content_type=None)\<close> returns: \<^verbatim>\<open>None\<close>, a bool, an int, a float,
  a str, a list or a dict. The same type carries the fields of the result objects, which
  hold either a string of the caller or a value taken from the response.
\<close>

datatype json =
    JNull
  | JBool bool
  | JInt int
  | JFloat real
  | JStr string
  | JArr "json list"
  | JObj "(string \<times> json) list"

text \<open>Python truth value of a parsed JSON value, as tested by \<^verbatim>\<open>if x:\<close> and \<^verbatim>\<open>x or y\<close>.\<close>

fun truthy :: "json \<Rightarrow> bool" where
  "truthy JNull = False"
| "truthy (JBool b) = b"
| "truthy (JInt i) = (i \<noteq> 0)"
| "truthy (JFloat r) = (r \<noteq> 0)"
| "truthy (JStr s) = (s \<noteq> [])"
| "truthy (JArr xs) = (xs \<noteq> [])"
| "truthy (JObj kvs) = (kvs \<noteq> [])"

text \<open>\<^verbatim>\<open>d.get(key, default)\<close> on a dict given by its items.\<close>

definition dict_get :: "(string \<times> json) list \<Rightarrow> string \<Rightarrow> json \<Rightarrow> json" where
  "dict_get kvs key dflt = (case map_of kvs key of None \<Rightarrow> dflt | Some v \<Rightarrow> v)"

text \<open>
  The exceptions that leave the client. \<open>ValueError\<close> is raised by the normalizer and
  carries the offending code. \<open>StatusException\<close> and \<open>ErrException\<close> are the two
  \<^verbatim>\<open>raise Exception(...)\<close> of the remote-error policy (the spec's RemoteAPIError), with the
  status and payload, respectively the \<^verbatim>\<open>err\<close> value, that their messages format. The
  others come from the libraries: \<^verbatim>\<open>.get\<close> on a payload that is not a dict, a body that
  is not JSON, a transport failure, a request on a closed or missing session.
\<close>

datatype error =
    ValueError string
  | StatusException int json
  | ErrException json
  | AttributeError
  | JSONDecodeError
  | ClientError
  | RuntimeError


section \<open>The language normalizer\<close>

text \<open>
  \<^verbatim>\<open>_normalize_lang\<close>. A \<^verbatim>\<open>str\<close> is taken as the list of the bytes of its UTF-8 form, so
  that two strings are equal exactly when their byte lists are. The builtin
  \<^verbatim>\<open>str.lower\<close> folds every cased character of Unicode; it is not written out but
  taken as the parameter \<open>lower\<close>, so that what is proved of the normalizer holds for the
  builtin as it is.
\<close>

definition normalize_lang :: "(string \<Rightarrow> string) \<Rightarrow> constants \<Rightarrow> string \<Rightarrow> error + string" where
  "normalize_lang lower C code =
     (if code = ''auto'' then Inr ''auto''
      else if code \<in> LANGUAGES C then Inr code
      else case ALPHA1_TO_FULL C code of
        Some full \<Rightarrow> Inr full
      | None \<Rightarrow>
          (case LANGCODES C (lower code) of
             Some full \<Rightarrow> Inr full
           | None \<Rightarrow> Inl (ValueError code)))"

section \<open>Result models\<close>

text \<open>
  \<^verbatim>\<open>models.Translated\<close> and \<^verbatim>\<open>models.Detected\<close>: plain carriers, the constructor
  stores its arguments unchanged. The field \<^verbatim>\<open>text\<close> is called \<open>text_field\<close> here.
\<close>

record translated =
  src :: json
  dest :: string
  origin :: string
  text_field :: json
  extra_data :: json

record detected =
  lang :: json
  confidence :: json

section \<open>Sessions, connectors and the wire\<close>

text \<open>
  A connector is an object with identity: the client keeps a reference to it in
  \<^verbatim>\<open>self.connector\<close> and hands the same object to the session, which owns it
  (\<^verbatim>\<open>connector_owner=True\<close>). Connectors therefore live in a store and are named by their
  address. A session is referenced from \<^verbatim>\<open>self._session\<close> only and is kept by value; it
  holds the address of its connector until it is closed.
\<close>

datatype connector_kind = TCPConnector nat | ProxyConnector string

record connector_obj =
  c_kind :: connector_kind
  c_closed :: bool

datatype client_timeout = ClientTimeout nat

datatype basic_auth = BasicAuth string string

record client_session =
  s_connector :: "nat option"
  s_timeout :: client_timeout
  s_headers :: "(string \<times> string) list"

datatype http_method = GET | POST

text \<open>
  A request as it is handed to the transport: the arguments of \<^verbatim>\<open>session.post\<close> or
  \<^verbatim>\<open>session.get\<close>, and what the session adds to them (its default headers, its timeout
  and the connector the traffic goes through).
\<close>

record request =
  r_method :: http_method
  r_url :: string
  r_data :: "(string \<times> string) list"
  r_proxy :: "string option"
  r_proxy_auth :: "basic_auth option"
  r_headers :: "(string \<times> string) list"
  r_timeout :: client_timeout
  r_connector :: "connector_kind option"

text \<open>
  The world outside the client object: the connector store and the requests handed to
  the transport so far, oldest first.
\<close>

record world =
  conns :: "connector_obj list"
  sent :: "request list"

text \<open>
  What a request comes back with: a transport failure, or a status and a body, where the
  body is \<open>None\<close> when it is not JSON (\<^verbatim>\<open>resp.json\<close> then raises).
\<close>

datatype http_outcome = ConnectionFailed | Response int "json option"

text \<open>
  The environment the client runs in: everything it calls that is not code of the
  repository. The remote service answers a request knowing the requests before it, so
  that the same text may be answered differently on different calls. \<open>str_lower\<close> is the
  builtin \<^verbatim>\<open>str.lower\<close>. \<open>from_url_raises\<close> says for which proxy URLs
  \<^verbatim>\<open>ProxyConnector.from_url\<close> raises \<^verbatim>\<open>ValueError\<close>. The last two flags say whether
  \<^verbatim>\<open>await session.close()\<close> and \<^verbatim>\<open>await connector.close()\<close> of the HTTP library raise
  an \<^verbatim>\<open>Exception\<close>; an object whose close raises is left as it was.
\<close>

record env =
  remote :: "request list \<Rightarrow> request \<Rightarrow> http_outcome"
  str_lower :: "string \<Rightarrow> string"
  from_url_raises :: "string \<Rightarrow> bool"
  session_close_raises :: bool
  connector_close_raises :: bool

text \<open>
  The attributes of a \<^verbatim>\<open>Translator\<close>. The reader/writer lock is not modelled: calls are
  run one after the other.
\<close>

record translator =
  token :: string
  raise_exception :: bool
  timeout :: client_timeout
  connector_limit :: nat
  proxy :: "string option"
  proxy_auth :: "basic_auth option"
  proxy_url :: "string option"
  use_proxy_connector :: bool
  connector :: "nat option"
  session :: "client_session option"

type_synonym state = "translator \<times> world"

definition startswith :: "string \<Rightarrow> string \<Rightarrow> bool" where
  "startswith s p = (take (length p) s = p)"

text \<open>Allocation of a fresh, open connector.\<close>

definition new_connector :: "connector_kind \<Rightarrow> world \<Rightarrow> nat \<times> world" where
  "new_connector k w =
     (length (conns w), w\<lparr>conns := conns w @ [\<lparr>c_kind = k, c_closed = False\<rparr>]\<rparr>)"

definition conn_at :: "world \<Rightarrow> nat \<Rightarrow> connector_obj option" where
  "conn_at w a = (if a < length (conns w) then Some (conns w ! a) else None)"

text \<open>\<^verbatim>\<open>connector.closed\<close>; an address that names no connector counts as closed.\<close>

definition conn_closed :: "world \<Rightarrow> nat \<Rightarrow> bool" where
  "conn_closed w a = (case conn_at w a of None \<Rightarrow> True | Some c \<Rightarrow> c_closed c)"

text \<open>
  \<^verbatim>\<open>session.closed\<close> of the HTTP library: the session has given up its connector, or its
  connector is closed.
\<close>

definition session_closed :: "world \<Rightarrow> client_session \<Rightarrow> bool" where
  "session_closed w s = (case s_connector s of None \<Rightarrow> True | Some a \<Rightarrow> conn_closed w a)"

definition mark_closed :: "nat \<Rightarrow> world \<Rightarrow> world" where
  "mark_closed a w =
     (if a < length (conns w)
      then w\<lparr>conns := (conns w)[a := (conns w ! a)\<lparr>c_closed := True\<rparr>]\<rparr>
      else w)"

text \<open>
  \<^verbatim>\<open>await connector.close()\<close> and \<^verbatim>\<open>await session.close()\<close> of the library. Closing a
  session closes the connector it owns and makes the session give it up.
\<close>

definition connector_close :: "env \<Rightarrow> nat \<Rightarrow> world \<Rightarrow> (error + unit) \<times> world" where
  "connector_close E a w =
     (if connector_close_raises E then (Inl ClientError, w) else (Inr (), mark_closed a w))"

definition session_close ::
  "env \<Rightarrow> client_session \<Rightarrow> world \<Rightarrow> (error + unit) \<times> client_session \<times> world" where
  "session_close E s w =
     (if session_closed w s then (Inr (), s, w)
      else if session_close_raises E then (Inl ClientError, s, w)
      else (Inr (), s\<lparr>s_connector := None\<rparr>,
            (case s_connector s of None \<Rightarrow> w | Some a \<Rightarrow> mark_closed a w)))"

text \<open>
  \<^verbatim>\<open>aiohttp.BasicAuth(login, password)\<close>, which raises \<^verbatim>\<open>ValueError\<close> when the login
  contains a colon.
\<close>

definition make_basic_auth :: "string \<Rightarrow> string \<Rightarrow> error + basic_auth" where
  "make_basic_auth login password =
     (if CHR '':'' \<in> set login then Inl (ValueError login) else Inr (BasicAuth login password))"

section \<open>Session lifecycle\<close>

definition get_headers :: "translator \<Rightarrow> (string \<times> string) list" where
  "get_headers tr = [(''Authorization'', token tr)]"

text \<open>\<^verbatim>\<open>aiohttp.ClientSession(connector=..., connector_owner=True, timeout=..., headers=...)\<close>.\<close>

definition new_session :: "translator \<Rightarrow> nat \<Rightarrow> client_session" where
  "new_session tr a =
     \<lparr>s_connector = Some a, s_timeout = timeout tr, s_headers = get_headers tr\<rparr>"

text \<open>
  The last step of \<^verbatim>\<open>__init__\<close> and of \<^verbatim>\<open>change_proxy\<close> (lines 122 to 131 and 208 to
  217): the connector is stored in \<^verbatim>\<open>self.connector\<close> and a session is built on it.
\<close>

definition install_session :: "connector_kind \<Rightarrow> translator \<Rightarrow> world \<Rightarrow> state" where
  "install_session kind tr w =
     (let (a, w1) = new_connector kind w;
          tr1 = tr\<lparr>connector := Some a\<rparr>
      in (tr1\<lparr>session := Some (new_session tr1 a)\<rparr>, w1))"

text \<open>
  The proxy part that \<^verbatim>\<open>__init__\<close> and \<^verbatim>\<open>change_proxy\<close> both contain (lines 107 to 131
  and 194 to 217). A proxy URL is a SOCKS one when it starts with \<^verbatim>\<open>socks5\<close> or
  \<^verbatim>\<open>socks4\<close>. \<^verbatim>\<open>ProxyConnector.from_url\<close> and \<^verbatim>\<open>aiohttp.BasicAuth\<close> may raise; the
  attributes assigned before the raise keep their new values.
\<close>

definition is_socks :: "string \<Rightarrow> bool" where
  "is_socks p = (startswith p ''socks5'' \<or> startswith p ''socks4'')"

definition install_proxy ::
  "env \<Rightarrow> string option \<Rightarrow> (string \<times> string) option \<Rightarrow> translator \<Rightarrow> world \<Rightarrow>
   (error + unit) \<times> state" where
  "install_proxy E prx auth tr w =
     (let tr1 = tr\<lparr>proxy := None, proxy_auth := None, proxy_url := prx,
                   use_proxy_connector := False\<rparr>
      in case prx of
           None \<Rightarrow> (Inr (), install_session (TCPConnector (connector_limit tr1)) tr1 w)
         | Some p \<Rightarrow>
             if is_socks p then
               (if from_url_raises E p then (Inl (ValueError p), tr1, w)
                else (Inr (), install_session (ProxyConnector p)
                                (tr1\<lparr>use_proxy_connector := True\<rparr>) w))
             else
               (let tr2 = tr1\<lparr>proxy := Some p\<rparr>
                in case auth of
                     None \<Rightarrow>
                       (Inr (), install_session (TCPConnector (connector_limit tr2)) tr2 w)
                   | Some (login, password) \<Rightarrow>
                       (case make_basic_auth login password of
                          Inl e \<Rightarrow> (Inl e, tr2, w)
                        | Inr ba \<Rightarrow>
                            (Inr (), install_session (TCPConnector (connector_limit tr2))
                                       (tr2\<lparr>proxy_auth := Some ba\<rparr>) w))))"

text \<open>
  \<^verbatim>\<open>Translator.__init__\<close>. When the constructor raises, no client exists.
\<close>

definition init ::
  "env \<Rightarrow> string \<Rightarrow> bool \<Rightarrow> client_timeout option \<Rightarrow> string option \<Rightarrow>
   (string \<times> string) option \<Rightarrow> nat \<Rightarrow> world \<Rightarrow> error + state" where
  "init E tok raise_exc tmo prx auth limit w =
     (case install_proxy E prx auth
             \<lparr> token = (if startswith tok ''Bearer '' then tok else ''Bearer '' @ tok),
               raise_exception = raise_exc,
               timeout = (case tmo of None \<Rightarrow> ClientTimeout 30 | Some t \<Rightarrow> t),
               connector_limit = limit,
               proxy = None, proxy_auth = None, proxy_url = prx, use_proxy_connector = False,
               connector = None, session = None \<rparr> w of
        (Inl e, st) \<Rightarrow> Inl e
      | (Inr u, st) \<Rightarrow> Inr st)"

text \<open>
  \<^verbatim>\<open>Translator._ensure_session\<close>, with its test
  \<^verbatim>\<open>self._session is None or self._session.closed\<close>.
\<close>

fun session_missing :: "state \<Rightarrow> bool" where
  "session_missing (tr, w) =
     (case session tr of None \<Rightarrow> True | Some s \<Rightarrow> session_closed w s)"

fun ensure_session :: "state \<Rightarrow> state" where
  "ensure_session (tr, w) =
     (if session_missing (tr, w) then
        (let (a, w1) = new_connector (TCPConnector (connector_limit tr)) w;
             tr1 = tr\<lparr>connector := Some a\<rparr>
         in (tr1\<lparr>session := Some (new_session tr1 a)\<rparr>, w1))
      else (tr, w))"

text \<open>
  \<^verbatim>\<open>Translator.close\<close>. Both library calls sit in \<^verbatim>\<open>try: ... except Exception: pass\<close>,
  and both attributes are reset in \<^verbatim>\<open>finally\<close> blocks.
\<close>

fun close :: "env \<Rightarrow> state \<Rightarrow> (error + unit) \<times> state" where
  "close E (tr, w) =
     (let w1 = (case session tr of
                  None \<Rightarrow> w
                | Some s \<Rightarrow>
                    if session_closed w s then w
                    else (case session_close E s w of
                            (Inl e, s', w') \<Rightarrow> w'
                          | (Inr u, s', w') \<Rightarrow> w'));
          tr1 = tr\<lparr>session := None\<rparr>;
          w2 = (case connector tr1 of
                  None \<Rightarrow> w1
                | Some a \<Rightarrow>
                    if conn_closed w1 a then w1
                    else (case connector_close E a w1 of
                            (Inl e, w') \<Rightarrow> w'
                          | (Inr u, w') \<Rightarrow> w'));
          tr2 = tr1\<lparr>connector := None\<rparr>
      in (Inr (), tr2, w2))"

text \<open>
  \<^verbatim>\<open>Translator.change_proxy\<close>. Here the library calls are not guarded: an exception of
  theirs leaves the method where it is raised, with the attributes as they are then.
\<close>

fun change_proxy ::
  "env \<Rightarrow> string option \<Rightarrow> (string \<times> string) option \<Rightarrow> state \<Rightarrow> (error + unit) \<times> state" where
  "change_proxy E prx auth (tr, w) =
     (case (case session tr of
              None \<Rightarrow> (Inr (), w)
            | Some s \<Rightarrow>
                if session_closed w s then (Inr (), w)
                else (case session_close E s w of (r, s', w') \<Rightarrow> (r, w'))) of
        (Inl e, w1) \<Rightarrow> (Inl e, tr, w1)
      | (Inr u, w1) \<Rightarrow>
          (let tr1 = tr\<lparr>session := None\<rparr> in
           case (case connector tr1 of
                   None \<Rightarrow> (Inr (), w1)
                 | Some a \<Rightarrow>
                     if conn_closed w1 a then (Inr (), w1) else connector_close E a w1) of
             (Inl e, w2) \<Rightarrow> (Inl e, tr1, w2)
           | (Inr u, w2) \<Rightarrow> install_proxy E prx auth (tr1\<lparr>connector := None\<rparr>) w2))"

section \<open>The public operations\<close>

text \<open>
  One request on the client's session: \<^verbatim>\<open>session.post\<close> or \<^verbatim>\<open>session.get\<close> with the
  client's proxy settings, then \<^verbatim>\<open>resp.status\<close> and \<^verbatim>\<open>resp.json(content_type=None)\<close>.
  The body is decoded before the status is looked at.
\<close>

definition the_request ::
  "translator \<Rightarrow> world \<Rightarrow> client_session \<Rightarrow> http_method \<Rightarrow> string \<Rightarrow> (string \<times> string) list \<Rightarrow>
   request" where
  "the_request tr w s m u payload =
     \<lparr> r_method = m, r_url = u, r_data = payload,
       r_proxy = proxy tr, r_proxy_auth = proxy_auth tr,
       r_headers = s_headers s, r_timeout = s_timeout s,
       r_connector = (case s_connector s of
                        None \<Rightarrow> None
                      | Some a \<Rightarrow> map_option c_kind (conn_at w a)) \<rparr>"

fun send :: "env \<Rightarrow> http_method \<Rightarrow> string \<Rightarrow> (string \<times> string) list \<Rightarrow> state \<Rightarrow>
    (error + int \<times> json) \<times> state" where
  "send E m u payload (tr, w) =
     (case session tr of
        None \<Rightarrow> (Inl AttributeError, tr, w)
      | Some s \<Rightarrow>
          if session_closed w s then (Inl RuntimeError, tr, w)
          else
            (let req = the_request tr w s m u payload;
                 w1 = w\<lparr>sent := sent w @ [req]\<rparr>
             in case remote E (sent w) req of
                  ConnectionFailed \<Rightarrow> (Inl ClientError, tr, w1)
                | Response status None \<Rightarrow> (Inl JSONDecodeError, tr, w1)
                | Response status (Some data) \<Rightarrow> (Inr (status, data), tr, w1)))"

text \<open>
  The \<^verbatim>\<open>text\<close> argument is a string or a list (whose items are again strings or lists);
  the result has the same shape.
\<close>

datatype text_arg = Str string | Lst "text_arg list"

datatype 'a answer = One 'a | Many "'a answer list"

text \<open>\<^verbatim>\<open>Translator.translate\<close>, lines 257 to 283: from the response to the result.\<close>

definition degraded :: "string \<Rightarrow> string \<Rightarrow> string \<Rightarrow> json \<Rightarrow> translated" where
  "degraded src0 dest0 text0 data =
     \<lparr> src = JStr src0, dest = dest0, origin = text0, text_field = JStr [],
       extra_data = data \<rparr>"

definition translate_response ::
  "translator \<Rightarrow> string \<Rightarrow> string \<Rightarrow> string \<Rightarrow> string \<Rightarrow> int \<Rightarrow> json \<Rightarrow> error + translated" where
  "translate_response tr text0 dest0 src0 src_code status data =
     (if status \<noteq> 200 then
        (if raise_exception tr then Inl (StatusException status data)
         else Inr (degraded src0 dest0 text0 data))
      else case data of
        JObj kvs \<Rightarrow>
          if truthy (dict_get kvs ''err'' JNull) then
            (if raise_exception tr then Inl (ErrException (dict_get kvs ''err'' JNull))
             else Inr (degraded src0 dest0 text0 data))
          else
            (let translated_text = dict_get kvs ''result'' (JStr []);
                 detected_src = dict_get kvs ''from'' (JStr src_code)
             in Inr \<lparr> src = (if src_code = ''auto'' \<and> truthy detected_src then detected_src
                              else JStr src0),
                      dest = dest0, origin = text0, text_field = translated_text,
                      extra_data = data \<rparr>)
      | _ \<Rightarrow> Inl AttributeError)"

text \<open>\<^verbatim>\<open>Translator.translate\<close> on a string, lines 243 to 283.\<close>

definition translate_payload :: "string \<Rightarrow> string \<Rightarrow> string \<Rightarrow> (string \<times> string) list" where
  "translate_payload dest_code text0 src_code =
     [(''to'', dest_code), (''text'', text0)] @
     (if src_code \<noteq> ''auto'' then [(''from'', src_code)] else [])"

definition translate_str ::
  "constants \<Rightarrow> env \<Rightarrow> string \<Rightarrow> string \<Rightarrow> string \<Rightarrow> state \<Rightarrow> (error + translated) \<times> state" where
  "translate_str C E text0 dest0 src0 st =
     (case normalize_lang (str_lower E) C dest0 of
        Inl e \<Rightarrow> (Inl e, st)
      | Inr dest_code \<Rightarrow>
          (case normalize_lang (str_lower E) C src0 of
             Inl e \<Rightarrow> (Inl e, st)
           | Inr src_code \<Rightarrow>
               (case send E POST (TRANSLATE_URL C) (translate_payload dest_code text0 src_code)
                       (ensure_session st) of
                  (Inl e, st1) \<Rightarrow> (Inl e, st1)
                | (Inr (status, data), st1) \<Rightarrow>
                    (translate_response (fst st1) text0 dest0 src0 src_code status data, st1))))"

text \<open>
  \<^verbatim>\<open>Translator.translate\<close>. On a list it is the comprehension
  \<^verbatim>\<open>[await self.translate(item, dest=dest, src=src) for item in text]\<close>: the items are
  run in order, each on the state the one before it left, and the first exception ends
  the comprehension.
\<close>

fun translate ::
  "constants \<Rightarrow> env \<Rightarrow> text_arg \<Rightarrow> string \<Rightarrow> string \<Rightarrow> state \<Rightarrow> (error + translated answer) \<times> state"
and translate_items ::
  "constants \<Rightarrow> env \<Rightarrow> text_arg list \<Rightarrow> string \<Rightarrow> string \<Rightarrow> state \<Rightarrow>
   (error + translated answer list) \<times> state"
  where
  "translate C E (Lst items) dest0 src0 st =
     (case translate_items C E items dest0 src0 st of
        (Inl e, st1) \<Rightarrow> (Inl e, st1)
      | (Inr rs, st1) \<Rightarrow> (Inr (Many rs), st1))"
| "translate C E (Str text0) dest0 src0 st =
     (case translate_str C E text0 dest0 src0 st of
        (Inl e, st1) \<Rightarrow> (Inl e, st1)
      | (Inr r, st1) \<Rightarrow> (Inr (One r), st1))"
| "translate_items C E [] dest0 src0 st = (Inr [], st)"
| "translate_items C E (item # items) dest0 src0 st =
     (case translate C E item dest0 src0 st of
        (Inl e, st1) \<Rightarrow> (Inl e, st1)
      | (Inr r, st1) \<Rightarrow>
          (case translate_items C E items dest0 src0 st1 of
             (Inl e, st2) \<Rightarrow> (Inl e, st2)
           | (Inr rs, st2) \<Rightarrow> (Inr (r # rs), st2)))"

text \<open>\<^verbatim>\<open>Translator.detect\<close>, lines 307 to 322: from the response to the result.\<close>

definition detect_response :: "translator \<Rightarrow> int \<Rightarrow> json \<Rightarrow> error + detected" where
  "detect_response tr status data =
     (if status \<noteq> 200 then
        (if raise_exception tr then Inl (StatusException status data)
         else Inr \<lparr>lang = JStr ''unknown'', confidence = JNull\<rparr>)
      else case data of
        JObj kvs \<Rightarrow>
          if truthy (dict_get kvs ''err'' JNull) then
            (if raise_exception tr then Inl (ErrException (dict_get kvs ''err'' JNull))
             else Inr \<lparr>lang = JStr ''unknown'', confidence = JNull\<rparr>)
          else
            (let source_language = dict_get kvs ''sourceLanguage'' JNull
             in Inr \<lparr> lang = (if truthy source_language then source_language
                               else dict_get kvs ''from'' (JStr ''unknown'')),
                      confidence = dict_get kvs ''score'' JNull \<rparr>)
      | _ \<Rightarrow> Inl AttributeError)"

text \<open>\<^verbatim>\<open>Translator.detect\<close> on a string, lines 297 to 322.\<close>

definition detect_url :: "constants \<Rightarrow> string" where
  "detect_url C = TRANSLATE_URL C @ ''?platform=dp''"

definition detect_str :: "constants \<Rightarrow> env \<Rightarrow> string \<Rightarrow> state \<Rightarrow> (error + detected) \<times> state" where
  "detect_str C E text0 st =
     (case send E POST (detect_url C) [(''to'', ''en_US''), (''text'', text0)]
             (ensure_session st) of
        (Inl e, st1) \<Rightarrow> (Inl e, st1)
      | (Inr (status, data), st1) \<Rightarrow> (detect_response (fst st1) status data, st1))"

text \<open>\<^verbatim>\<open>Translator.detect\<close>, with the list form \<^verbatim>\<open>[await self.detect(item) for item in text]\<close>.\<close>

fun detect :: "constants \<Rightarrow> env \<Rightarrow> text_arg \<Rightarrow> state \<Rightarrow> (error + detected answer) \<times> state"
and detect_items ::
  "constants \<Rightarrow> env \<Rightarrow> text_arg list \<Rightarrow> state \<Rightarrow> (error + detected answer list) \<times> state"
  where
  "detect C E (Lst items) st =
     (case detect_items C E items st of
        (Inl e, st1) \<Rightarrow> (Inl e, st1)
      | (Inr rs, st1) \<Rightarrow> (Inr (Many rs), st1))"
| "detect C E (Str text0) st =
     (case detect_str C E text0 st of
        (Inl e, st1) \<Rightarrow> (Inl e, st1)
      | (Inr r, st1) \<Rightarrow> (Inr (One r), st1))"
| "detect_items C E [] st = (Inr [], st)"
| "detect_items C E (item # items) st =
     (case detect C E item st of
        (Inl e, st1) \<Rightarrow> (Inl e, st1)
      | (Inr r, st1) \<Rightarrow>
          (case detect_items C E items st1 of
             (Inl e, st2) \<Rightarrow> (Inl e, st2)
           | (Inr rs, st2) \<Rightarrow> (Inr (r # rs), st2)))"

text \<open>
  \<^verbatim>\<open>Translator.get_languages\<close>. The status of the response is not looked at.
\<close>

definition get_languages :: "constants \<Rightarrow> env \<Rightarrow> state \<Rightarrow> (error + json) \<times> state" where
  "get_languages C E st =
     (case send E GET (GET_LANGUAGES_URL C) [] (ensure_session st) of
        (Inl e, st1) \<Rightarrow> (Inl e, st1)
      | (Inr (status, data), st1) \<Rightarrow>
          ((case data of
              JObj kvs \<Rightarrow>
                if truthy (dict_get kvs ''err'' JNull) then
                  (if raise_exception (fst st1) then Inl (ErrException (dict_get kvs ''err'' JNull))
                   else Inr (JArr []))
                else Inr (dict_get kvs ''result'' (JArr []))
            | _ \<Rightarrow> Inl AttributeError), st1))"

section \<open>Notions used to state the properties\<close>

text \<open>
  An input that none of the four rules of the normalizer matches.
\<close>

definition matches_nothing :: "(string \<Rightarrow> string) \<Rightarrow> constants \<Rightarrow> string \<Rightarrow> bool" where
  "matches_nothing lower C code =
     (code \<noteq> ''auto'' \<and> code \<notin> LANGUAGES C \<and> ALPHA1_TO_FULL C code = None \<and>
      LANGCODES C (lower code) = None)"

text \<open>
  The argument is a text, or a list in which a text occurs at some depth: the call reaches
  the normalizer at least once.
\<close>

fun has_text :: "text_arg \<Rightarrow> bool" where
  "has_text (Str text0) = True"
| "has_text (Lst items) = (\<exists>item \<in> set items. has_text item)"



text \<open>
  A value that is \<^verbatim>\<open>None\<close> or a float between 0 and 1.
\<close>

definition unit_interval_or_none :: "json \<Rightarrow> bool" where
  "unit_interval_or_none v =
     (case v of JNull \<Rightarrow> True | JFloat r \<Rightarrow> 0 \<le> r \<and> r \<le> 1 | _ \<Rightarrow> False)"

text \<open>
  Running a call on the items of a list one after the other: each item is run on the state
  the one before it left, the results are collected in the order of the items, and the
  first exception ends the run.
\<close>

fun for_each :: "('x \<Rightarrow> 's \<Rightarrow> (error + 'r) \<times> 's) \<Rightarrow> 'x list \<Rightarrow> 's \<Rightarrow> (error + 'r list) \<times> 's" where
  "for_each f [] st = (Inr [], st)"
| "for_each f (x # xs) st =
     (case f x st of
        (Inl e, st1) \<Rightarrow> (Inl e, st1)
      | (Inr r, st1) \<Rightarrow>
          (case for_each f xs st1 of
             (Inl e, st2) \<Rightarrow> (Inl e, st2)
           | (Inr rs, st2) \<Rightarrow> (Inr (r # rs), st2)))"

text \<open>
  The state in which the call on the next item starts, after the calls on the items
  \<open>xs\<close> have been run in order from \<open>st\<close>.
\<close>

definition state_after :: "('x \<Rightarrow> 's \<Rightarrow> 'r \<times> 's) \<Rightarrow> 's \<Rightarrow> 'x list \<Rightarrow> 's" where
  "state_after f st xs = foldl (\<lambda>s x. snd (f x s)) st xs"

text \<open>
  The connector behind the client's live session, if it has one: what the next request
  will go through.
\<close>

definition session_kind :: "state \<Rightarrow> connector_kind option" where
  "session_kind st =
     (case session (fst st) of
        None \<Rightarrow> None
      | Some s \<Rightarrow>
          (case s_connector s of
             None \<Rightarrow> None
           | Some a \<Rightarrow>
               (case conn_at (snd st) a of
                  None \<Rightarrow> None
                | Some c \<Rightarrow> if c_closed c then None else Some (c_kind c))))"

text \<open>
  The state after one \<^verbatim>\<open>close()\<close> call for every element of the list, in order; each call
  may meet a different behaviour of the library.
\<close>

definition closed_by :: "env list \<Rightarrow> state \<Rightarrow> state" where
  "closed_by Es st = foldl (\<lambda>s E. snd (close E s)) st Es"

section \<open>Mock environments and sample clients\<close>

text \<open>
  Case folding of the ASCII letters: what \<^verbatim>\<open>str.lower\<close> does to a string of ASCII
  characters. The samples below contain no other character.
\<close>

definition ascii_lower_char :: "char \<Rightarrow> char" where
  "ascii_lower_char c =
     (case map_of (zip ''ABCDEFGHIJKLMNOPQRSTUVWXYZ'' ''abcdefghijklmnopqrstuvwxyz'') c of
        None \<Rightarrow> c
      | Some l \<Rightarrow> l)"

definition ascii_lower :: "string \<Rightarrow> string" where
  "ascii_lower s = map ascii_lower_char s"


text \<open>
  An environment whose transport answers every request with the same status and JSON
  payload, and whose libraries raise nothing.
\<close>

definition mock_env :: "int \<Rightarrow> json \<Rightarrow> env" where
  "mock_env status data =
     \<lparr> remote = (\<lambda>log req. Response status (Some data)),
       str_lower = ascii_lower, from_url_raises = (\<lambda>url. False),
       session_close_raises = False, connector_close_raises = False \<rparr>"


text \<open>
  An environment whose transport answers a request with status 200 and, as
  \<^verbatim>\<open>result\<close>, the \<^verbatim>\<open>text\<close> field of the request in lower case.
\<close>

definition lowering_env :: env where
  "lowering_env =
     \<lparr> remote = (\<lambda>log req. Response 200
         (Some (JObj [(''result'',
            JStr (case map_of (r_data req) ''text'' of
                    None \<Rightarrow> []
                  | Some t \<Rightarrow> ascii_lower t))]))),
       str_lower = ascii_lower, from_url_raises = (\<lambda>url. False),
       session_close_raises = False, connector_close_raises = False \<rparr>"

text \<open>
  The Translated that a client returns for that answer when asked to translate from
  \<open>auto\<close> to \<open>fr_FR\<close>.
\<close>

definition lowered :: "string \<Rightarrow> string \<Rightarrow> translated" where
  "lowered text0 low =
     \<lparr> src = JStr ''auto'', dest = ''fr_FR'', origin = text0, text_field = JStr low,
       extra_data = JObj [(''result'', JStr low)] \<rparr>"

text \<open>
  An environment whose two close calls always raise, and whose transport never connects.
\<close>

definition failing_close_env :: env where
  "failing_close_env =
     \<lparr> remote = (\<lambda>log req. ConnectionFailed),
       str_lower = ascii_lower, from_url_raises = (\<lambda>url. False),
       session_close_raises = True, connector_close_raises = True \<rparr>"

definition empty_world :: world where
  "empty_world = \<lparr>conns = [], sent = []\<rparr>"

text \<open>
  The client that \<^verbatim>\<open>Translator(token='token', raise_exception=...)\<close> builds in the empty
  world, every other argument at its default: a session on the TCP connector at address 0.
\<close>

definition new_client :: "bool \<Rightarrow> state" where
  "new_client raise_exc =
     (\<lparr> token = ''Bearer token'', raise_exception = raise_exc,
        timeout = ClientTimeout 30, connector_limit = 100,
        proxy = None, proxy_auth = None, proxy_url = None, use_proxy_connector = False,
        connector = Some 0,
        session = Some \<lparr> s_connector = Some 0, s_timeout = ClientTimeout 30,
                         s_headers = [(''Authorization'', ''Bearer token'')] \<rparr> \<rparr>,
      \<lparr> conns = [\<lparr>c_kind = TCPConnector 100, c_closed = False\<rparr>], sent = [] \<rparr>)"

text \<open>
  The client that \<^verbatim>\<open>Translator(token='token', proxy='socks5://foo.bar:1080')\<close> builds in
  the empty world: a session on a SOCKS connector.
\<close>

definition socks_client :: state where
  "socks_client =
     (\<lparr> token = ''Bearer token'', raise_exception = False,
        timeout = ClientTimeout 30, connector_limit = 100,
        proxy = None, proxy_auth = None, proxy_url = Some ''socks5://foo.bar:1080'',
        use_proxy_connector = True,
        connector = Some 0,
        session = Some \<lparr> s_connector = Some 0, s_timeout = ClientTimeout 30,
                         s_headers = [(''Authorization'', ''Bearer token'')] \<rparr> \<rparr>,
      \<lparr> conns = [\<lparr>c_kind = ProxyConnector ''socks5://foo.bar:1080'', c_closed = False\<rparr>],
        sent = [] \<rparr>)"

text \<open>
  The client that
  \<^verbatim>\<open>Translator(token='token', proxy='https://foo.bar:8080', proxy_auth=('user', 'secret'))\<close>
  builds in the empty world: a session on a TCP connector, and a per-request proxy.
\<close>

definition http_proxy_client :: state where
  "http_proxy_client =
     (\<lparr> token = ''Bearer token'', raise_exception = False,
        timeout = ClientTimeout 30, connector_limit = 100,
        proxy = Some ''https://foo.bar:8080'',
        proxy_auth = Some (BasicAuth ''user'' ''secret''),
        proxy_url = Some ''https://foo.bar:8080'', use_proxy_connector = False,
        connector = Some 0,
        session = Some \<lparr> s_connector = Some 0, s_timeout = ClientTimeout 30,
                         s_headers = [(''Authorization'', ''Bearer token'')] \<rparr> \<rparr>,
      \<lparr> conns = [\<lparr>c_kind = TCPConnector 100, c_closed = False\<rparr>], sent = [] \<rparr>)"

section \<open>Properties of the normalizer\<close>

lemma normalize_lang_auto: "normalize_lang L C ''auto'' = Inr ''auto''"
  by (simp add: normalize_lang_def)







section \<open>Properties of the operations\<close>

lemma normalize_lang_fails_iff:
  "(\<exists>e. normalize_lang L C code = Inl e) \<longleftrightarrow> matches_nothing L C code"
  by (auto simp: normalize_lang_def matches_nothing_def split: option.splits)

lemma normalize_lang_matches_nothing:
  "matches_nothing L C code \<Longrightarrow> normalize_lang L C code = Inl (ValueError code)"
  by (simp add: normalize_lang_def matches_nothing_def)

lemma ensure_session_frame:
  "raise_exception (fst (ensure_session st)) = raise_exception (fst st) \<and>
   proxy (fst (ensure_session st)) = proxy (fst st) \<and>
   proxy_auth (fst (ensure_session st)) = proxy_auth (fst st) \<and>
   sent (snd (ensure_session st)) = sent (snd st)"
  by (cases st) (simp add: new_connector_def Let_def)

lemma ensure_session_live: "\<not> session_missing (ensure_session st)"
  by (cases st)
     (simp add: new_connector_def new_session_def session_closed_def conn_closed_def
        conn_at_def Let_def)

lemma send_frame: "send E m u p st = (r, st1) \<Longrightarrow> fst st1 = fst st"
  by (cases st) (auto simp: Let_def split: option.splits if_splits http_outcome.splits)

lemma translate_str_response:
  assumes "normalize_lang (str_lower E) C dest0 = Inr dest_code"
    and "normalize_lang (str_lower E) C src0 = Inr src_code"
    and "send E POST (TRANSLATE_URL C) (translate_payload dest_code text0 src_code)
           (ensure_session st) = (Inr (status, data), st1)"
  shows "translate_str C E text0 dest0 src0 st =
     (translate_response (fst (ensure_session st)) text0 dest0 src0 src_code status data, st1)"
  using assms send_frame [OF assms(3)] by (simp add: translate_str_def)

lemmas run_defs =
  new_client_def mock_env_def new_connector_def new_session_def get_headers_def
  session_closed_def conn_closed_def conn_at_def the_request_def Let_def

lemma init_new_client:
  "init E ''token'' raise_exc None None None 100 empty_world = Inr (new_client raise_exc)"
  by (simp add: init_def install_proxy_def install_session_def startswith_def empty_world_def
      run_defs)

lemma translate_str_unresolved:
  assumes "matches_nothing (str_lower E) C dest0 \<or> matches_nothing (str_lower E) C src0"
  shows "translate_str C E text0 dest0 src0 st =
     (Inl (ValueError (if matches_nothing (str_lower E) C dest0 then dest0 else src0)), st)"
proof (cases "matches_nothing (str_lower E) C dest0")
  case True
  then show ?thesis
    by (simp add: translate_str_def normalize_lang_matches_nothing)
next
  case False
  with assms have s: "matches_nothing (str_lower E) C src0" by simp
  from False obtain dc where "normalize_lang (str_lower E) C dest0 = Inr dc"
    using normalize_lang_fails_iff [of "str_lower E" C dest0] by (cases "normalize_lang (str_lower E) C dest0") auto
  with s False show ?thesis
    by (simp add: translate_str_def normalize_lang_matches_nothing)
qed

lemma translate_unresolved_aux:
  assumes "matches_nothing (str_lower E) C dest0 \<or> matches_nothing (str_lower E) C src0"
  shows "snd (translate C E t dest0 src0 st) = st \<and>
     (if has_text t
      then fst (translate C E t dest0 src0 st) =
        Inl (ValueError (if matches_nothing (str_lower E) C dest0 then dest0 else src0))
      else \<exists>a. fst (translate C E t dest0 src0 st) = Inr a)"
    and "snd (translate_items C E items dest0 src0 st) = st \<and>
     (if \<exists>item \<in> set items. has_text item
      then fst (translate_items C E items dest0 src0 st) =
        Inl (ValueError (if matches_nothing (str_lower E) C dest0 then dest0 else src0))
      else \<exists>a. fst (translate_items C E items dest0 src0 st) = Inr a)"
  using assms
proof (induction C E t dest0 src0 st and C E items dest0 src0 st
    rule: translate_translate_items.induct)
  case (1 C E items dest0 src0 st)
  obtain r st1 where h: "translate_items C E items dest0 src0 st = (r, st1)"
    by (cases "translate_items C E items dest0 src0 st")
  from 1 have "snd (translate_items C E items dest0 src0 st) = st \<and>
     (if \<exists>item \<in> set items. has_text item
      then fst (translate_items C E items dest0 src0 st) =
        Inl (ValueError (if matches_nothing (str_lower E) C dest0 then dest0 else src0))
      else \<exists>a. fst (translate_items C E items dest0 src0 st) = Inr a)"
    by simp
  then have st1: "st1 = st"
    and r: "if \<exists>item \<in> set items. has_text item
      then r = Inl (ValueError (if matches_nothing (str_lower E) C dest0 then dest0 else src0))
      else \<exists>a. r = Inr a"
    unfolding h by (simp_all split: if_splits)
  show ?case
  proof (cases "\<exists>item \<in> set items. has_text item")
    case True
    with h st1 r show ?thesis by simp
  next
    case False
    with r obtain a where "r = Inr a" by auto
    with h st1 False show ?thesis by simp
  qed
next
  case (2 C E text0 dest0 src0 st)
  then show ?case by (simp add: translate_str_unresolved)
next
  case (3 C E dest0 src0 st)
  show ?case by simp
next
  case (4 C E item items dest0 src0 st)
  obtain r st1 where h: "translate C E item dest0 src0 st = (r, st1)"
    by (cases "translate C E item dest0 src0 st")
  from 4(1) 4(3) have "snd (translate C E item dest0 src0 st) = st \<and>
     (if has_text item
      then fst (translate C E item dest0 src0 st) =
        Inl (ValueError (if matches_nothing (str_lower E) C dest0 then dest0 else src0))
      else \<exists>a. fst (translate C E item dest0 src0 st) = Inr a)"
    by simp
  then have st1: "st1 = st"
    and r: "if has_text item
      then r = Inl (ValueError (if matches_nothing (str_lower E) C dest0 then dest0 else src0))
      else \<exists>a. r = Inr a"
    unfolding h by (simp_all split: if_splits)
  show ?case
  proof (cases r)
    case (Inl e)
    with h st1 r show ?thesis
      by (auto split: if_splits)
  next
    case (Inr a)
    with r have n: "\<not> has_text item" by (auto split: if_splits)
    from 4(2) [OF h [symmetric] Inr] 4(3) h st1 Inr n show ?thesis
      by (auto split: prod.splits sum.splits if_splits)
  qed
qed

text \<open>
  C7, as amended. Whatever the \<^verbatim>\<open>raise_exception\<close> flag of the client, a translate call
  whose \<open>dest\<close> or \<open>src\<close> matches nothing leaves the client and the world as they were:
  no session is created or replaced and no request is handed to the transport. When its
  argument is a text, or a list in which a text occurs, it raises \<open>ValueError\<close> (the spec's
  UnresolvedLanguage) for the first of \<open>dest\<close> and \<open>src\<close> that matches nothing.
\<close>

theorem translate_unresolved_language:
  assumes "matches_nothing (str_lower E) C dest0 \<or> matches_nothing (str_lower E) C src0"
  shows "snd (translate C E t dest0 src0 st) = st \<and>
     (has_text t \<longrightarrow>
        fst (translate C E t dest0 src0 st) =
          Inl (ValueError (if matches_nothing (str_lower E) C dest0 then dest0 else src0)))"
  using translate_unresolved_aux(1) [OF assms, of t st] by (simp split: if_splits)

theorem translate_unresolved_language_witness:
  "matches_nothing ascii_lower sample_constants ''klingon'' \<and>
   has_text (Str ''Hello'') \<and>
   translate sample_constants (mock_env 200 (JObj [(''result'', JStr ''Bonjour'')]))
       (Str ''Hello'') ''klingon'' ''auto'' (new_client False) =
     (Inl (ValueError ''klingon''), new_client False) \<and>
   has_text (Lst [Str ''Hello'', Str ''World'']) \<and>
   translate sample_constants (mock_env 200 (JObj [(''result'', JStr ''Bonjour'')]))
       (Lst [Str ''Hello'', Str ''World'']) ''fr'' ''klingon'' (new_client True) =
     (Inl (ValueError ''klingon''), new_client True)"
proof -
  let ?E = "mock_env 200 (JObj [(''result'', JStr ''Bonjour'')])"
  have m: "matches_nothing ascii_lower sample_constants ''klingon''"
    by (simp add: matches_nothing_def sample_constants_def ascii_lower_def ascii_lower_char_def)
  have n: "\<not> matches_nothing ascii_lower sample_constants ''fr''"
    by (simp add: matches_nothing_def sample_constants_def)
  have t1: "has_text (Str ''Hello'')" and t2: "has_text (Lst [Str ''Hello'', Str ''World''])"
    by simp_all
  have l: "str_lower ?E = ascii_lower" by (simp add: mock_env_def)
  from translate_unresolved_language [of ?E sample_constants "''klingon''" "''auto''"
      "Str ''Hello''" "new_client False"] m t1 l
  have a: "translate sample_constants ?E (Str ''Hello'') ''klingon'' ''auto'' (new_client False) =
     (Inl (ValueError ''klingon''), new_client False)"
    by (simp add: prod_eq_iff del: translate.simps)
  from translate_unresolved_language [of ?E sample_constants "''fr''" "''klingon''"
      "Lst [Str ''Hello'', Str ''World'']" "new_client True"] m n t2 l
  have b: "translate sample_constants ?E (Lst [Str ''Hello'', Str ''World'']) ''fr'' ''klingon''
       (new_client True) = (Inl (ValueError ''klingon''), new_client True)"
    by (simp add: prod_eq_iff del: translate.simps has_text.simps)
  from m t1 t2 a b show ?thesis by (simp del: translate.simps has_text.simps)
qed

text \<open>
  C7 as it is stated fails on the list form: on the empty list no item is run, the
  languages are never normalized, and the call returns the empty list.
\<close>

theorem translate_empty_list_counterexample:
  "matches_nothing ascii_lower sample_constants ''klingon'' \<and>
   translate sample_constants (mock_env 200 (JObj [(''result'', JStr ''Bonjour'')]))
       (Lst []) ''klingon'' ''auto'' (new_client False) =
     (Inr (Many []), new_client False)"
  by (simp add: matches_nothing_def sample_constants_def ascii_lower_def ascii_lower_char_def)





text \<open>
  In the model a request comes back as \<open>JSONDecodeError\<close> exactly when the remote service
  answered it, with whatever status, by a body that is not JSON.
\<close>

lemma send_not_json:
  assumes "send E m u p st = (Inl JSONDecodeError, st1)"
  shows "\<exists>req status. sent (snd st1) = sent (snd st) @ [req] \<and>
           remote E (sent (snd st)) req = Response status None"
  using assms
  by (cases st)
     (auto simp: Let_def split: option.splits if_splits http_outcome.splits)


lemma normalize_sample_fr_FR: "normalize_lang ascii_lower sample_constants ''fr_FR'' = Inr ''fr_FR''"
  by (simp add: normalize_lang_def sample_constants_def)

lemma normalize_sample_fr: "normalize_lang ascii_lower sample_constants ''fr'' = Inr ''fr_FR''"
  by (simp add: normalize_lang_def sample_constants_def)





lemma translate_sample_run:
  "translate sample_constants (mock_env status data) (Str text0) dest0 ''auto'' (new_client b) =
     (case normalize_lang ascii_lower sample_constants dest0 of
        Inl e \<Rightarrow> (Inl e, new_client b)
      | Inr dest_code \<Rightarrow>
          (map_sum id One
             (translate_response (fst (new_client b)) text0 dest0 ''auto'' ''auto'' status data),
           fst (new_client b),
           (snd (new_client b))\<lparr>sent :=
              [\<lparr> r_method = POST, r_url = TRANSLATE_URL sample_constants,
                  r_data = [(''to'', dest_code), (''text'', text0)],
                  r_proxy = None, r_proxy_auth = None,
                  r_headers = [(''Authorization'', ''Bearer token'')],
                  r_timeout = ClientTimeout 30,
                  r_connector = Some (TCPConnector 100) \<rparr>]\<rparr>))"
  by (simp add: translate_str_def normalize_lang_auto translate_payload_def
      run_defs split: sum.splits)



lemma translate_response_success:
  assumes "\<not> truthy (dict_get kvs ''err'' JNull)"
  shows "translate_response tr text0 dest0 src0 src_code 200 (JObj kvs) =
     Inr \<lparr> src = (if src_code = ''auto''
                   then (case map_of kvs ''from'' of
                           None \<Rightarrow> JStr ''auto''
                         | Some v \<Rightarrow> if truthy v then v else JStr src0)
                   else JStr src0),
            dest = dest0, origin = text0,
            text_field = (case map_of kvs ''result'' of None \<Rightarrow> JStr [] | Some v \<Rightarrow> v),
            extra_data = JObj kvs \<rparr>"
  using assms by (simp add: translate_response_def dict_get_def split: option.splits)

text \<open>
  C3, as amended. When the request of a translate call comes back with status 200 and an
  object whose \<^verbatim>\<open>err\<close> value is missing or false in Python's sense, the call returns a
  Translated whose text is the \<^verbatim>\<open>result\<close> value (the empty string when the key is
  missing). If \<open>src\<close> normalized to \<open>auto\<close>, its \<open>src\<close> is the \<^verbatim>\<open>from\<close> value when
  that is present and true in Python's sense, \<open>auto\<close> when the key is missing, and the
  caller's \<open>src\<close> when the value is present but false (\<^verbatim>\<open>null\<close>, the empty string);
  if \<open>src\<close> normalized to a language, it is the caller's \<open>src\<close> unchanged.
\<close>

theorem translate_success:
  assumes "normalize_lang (str_lower E) C dest0 = Inr dest_code"
    and "normalize_lang (str_lower E) C src0 = Inr src_code"
    and "send E POST (TRANSLATE_URL C) (translate_payload dest_code text0 src_code)
           (ensure_session st) = (Inr (200, JObj kvs), st1)"
    and "\<not> truthy (dict_get kvs ''err'' JNull)"
  shows "translate C E (Str text0) dest0 src0 st =
     (Inr (One \<lparr> src = (if src_code = ''auto''
                          then (case map_of kvs ''from'' of
                                  None \<Rightarrow> JStr ''auto''
                                | Some v \<Rightarrow> if truthy v then v else JStr src0)
                          else JStr src0),
                   dest = dest0, origin = text0,
                   text_field = (case map_of kvs ''result'' of None \<Rightarrow> JStr [] | Some v \<Rightarrow> v),
                   extra_data = JObj kvs \<rparr>), st1)"
proof -
  have "translate_str C E text0 dest0 src0 st =
      (translate_response (fst (ensure_session st)) text0 dest0 src0 src_code 200 (JObj kvs), st1)"
    using assms(1-3) by (rule translate_str_response)
  then show ?thesis
    using assms(4) by (simp add: translate_response_success)
qed

theorem translate_success_witness:
  "fst (translate sample_constants
          (mock_env 200 (JObj [(''result'', JStr ''Bonjour''), (''from'', JStr ''en_US'')]))
          (Str ''Hello'') ''fr_FR'' ''auto'' (new_client False)) =
     Inr (One \<lparr> src = JStr ''en_US'', dest = ''fr_FR'', origin = ''Hello'',
                 text_field = JStr ''Bonjour'',
                 extra_data = JObj [(''result'', JStr ''Bonjour''), (''from'', JStr ''en_US'')] \<rparr>)"
proof -
  let ?kvs = "[(''result'', JStr ''Bonjour''), (''from'', JStr ''en_US'')]"
  let ?E = "mock_env 200 (JObj ?kvs)"
  have s: "send ?E POST (TRANSLATE_URL sample_constants) (translate_payload ''fr_FR'' ''Hello'' ''auto'')
        (ensure_session (new_client False)) =
      (Inr (200, JObj ?kvs), snd (send ?E POST (TRANSLATE_URL sample_constants)
         (translate_payload ''fr_FR'' ''Hello'' ''auto'') (ensure_session (new_client False))))"
    by (simp add: run_defs)
  have e: "\<not> truthy (dict_get ?kvs ''err'' JNull)"
    by (simp add: dict_get_def)
  have n1: "normalize_lang (str_lower ?E) sample_constants ''fr_FR'' = Inr ''fr_FR''"
    and n2: "normalize_lang (str_lower ?E) sample_constants ''auto'' = Inr ''auto''"
    by (simp_all add: mock_env_def normalize_sample_fr_FR normalize_lang_auto)
  from translate_success [OF n1 n2 s e]
  show ?thesis by simp
qed

text \<open>
  C3 as it is stated fails: with \<open>src\<close> equal to \<open>auto\<close> and a successful response whose
  \<^verbatim>\<open>from\<close> value is the empty string, the returned \<open>src\<close> is \<open>auto\<close>, not the value
  of the \<^verbatim>\<open>from\<close> field.
\<close>

theorem translate_empty_from_counterexample:
  "map_of [(''result'', JStr ''Bonjour''), (''from'', JStr [])] ''err'' = None \<and>
   map_of [(''result'', JStr ''Bonjour''), (''from'', JStr [])] ''from'' = Some (JStr []) \<and>
   normalize_lang ascii_lower sample_constants ''auto'' = Inr ''auto'' \<and>
   fst (translate sample_constants
          (mock_env 200 (JObj [(''result'', JStr ''Bonjour''), (''from'', JStr [])]))
          (Str ''Hello'') ''fr_FR'' ''auto'' (new_client False)) =
     Inr (One \<lparr> src = JStr ''auto'', dest = ''fr_FR'', origin = ''Hello'',
                 text_field = JStr ''Bonjour'',
                 extra_data = JObj [(''result'', JStr ''Bonjour''), (''from'', JStr [])] \<rparr>) \<and>
   JStr ''auto'' \<noteq> JStr []"
  unfolding translate_sample_run normalize_sample_fr_FR
  by (simp add: normalize_lang_auto translate_response_def dict_get_def)

text \<open>
  C8 on a concrete call: \<^verbatim>\<open>translate('Hello', dest='fr')\<close> sends the full code
  \<open>fr_FR\<close> in the \<^verbatim>\<open>to\<close> field of the request, and returns a Translated whose
  \<open>dest\<close> is the caller's \<open>fr\<close>.
\<close>

theorem translate_result_dest_is_callers:
  "normalize_lang ascii_lower sample_constants ''fr'' = Inr ''fr_FR'' \<and>
   translate sample_constants (mock_env 200 (JObj [(''result'', JStr ''Bonjour'')]))
       (Str ''Hello'') ''fr'' ''auto'' (new_client False) =
     (Inr (One \<lparr> src = JStr ''auto'', dest = ''fr'', origin = ''Hello'',
                  text_field = JStr ''Bonjour'',
                  extra_data = JObj [(''result'', JStr ''Bonjour'')] \<rparr>),
      fst (new_client False),
      (snd (new_client False))\<lparr>sent :=
         [\<lparr> r_method = POST, r_url = TRANSLATE_URL sample_constants,
             r_data = [(''to'', ''fr_FR''), (''text'', ''Hello'')],
             r_proxy = None, r_proxy_auth = None,
             r_headers = [(''Authorization'', ''Bearer token'')],
             r_timeout = ClientTimeout 30,
             r_connector = Some (TCPConnector 100) \<rparr>]\<rparr>)"
  unfolding translate_sample_run normalize_sample_fr
  by (simp add: translate_response_def dict_get_def)








lemma detect_sample_run:
  "detect sample_constants (mock_env status data) (Str text0) (new_client b) =
     (map_sum id One (detect_response (fst (new_client b)) status data),
      fst (new_client b),
      (snd (new_client b))\<lparr>sent :=
         [\<lparr> r_method = POST, r_url = detect_url sample_constants,
             r_data = [(''to'', ''en_US''), (''text'', text0)],
             r_proxy = None, r_proxy_auth = None,
             r_headers = [(''Authorization'', ''Bearer token'')],
             r_timeout = ClientTimeout 30,
             r_connector = Some (TCPConnector 100) \<rparr>]\<rparr>)"
  by (simp add: detect_str_def run_defs split: sum.splits)




lemma send_Inr:
  assumes "send E m u p st = (Inr (status, data), st1)"
  shows "\<exists>req. sent (snd st1) = sent (snd st) @ [req] \<and>
           remote E (sent (snd st)) req = Response status (Some data)"
  using assms
  by (cases st)
     (auto simp: Let_def split: option.splits if_splits http_outcome.splits)

lemma detect_response_confidence:
  assumes "detect_response tr status data = Inr d"
  shows "confidence d = JNull \<or>
     (status = 200 \<and> (\<exists>kvs. data = JObj kvs \<and> map_of kvs ''score'' = Some (confidence d)))"
  using assms
  by (auto simp: detect_response_def dict_get_def split: if_splits json.splits option.splits)

text \<open>
  The \<open>confidence\<close> of a Detected that a detect call on a text returns is \<^verbatim>\<open>None\<close>,
  or it is the \<^verbatim>\<open>score\<close> value, as it came, of the object that the remote service sent
  with status 200 in answer to the one request of the call: the client never checks it.
\<close>

lemma detect_confidence_is_score:
  assumes "detect C E (Str text0) st = (Inr (One d), st1)"
  shows "confidence d = JNull \<or>
     (\<exists>req kvs. sent (snd st1) = sent (snd st) @ [req] \<and>
        remote E (sent (snd st)) req = Response 200 (Some (JObj kvs)) \<and>
        map_of kvs ''score'' = Some (confidence d))"
proof -
  let ?s = "send E POST (detect_url C) [(''to'', ''en_US''), (''text'', text0)] (ensure_session st)"
  from assms obtain status data where s: "?s = (Inr (status, data), st1)"
    and r: "detect_response (fst st1) status data = Inr d"
    by (auto simp: detect_str_def split: prod.splits sum.splits)
  from send_Inr [OF s] obtain req where
    q: "sent (snd st1) = sent (snd st) @ [req]"
      "remote E (sent (snd st)) req = Response status (Some data)"
    by (auto simp: ensure_session_frame)
  from detect_response_confidence [OF r] q show ?thesis by auto
qed

text \<open>
  C9 on a concrete call: a response whose \<^verbatim>\<open>score\<close> is 98.5 gives a Detected whose
  \<open>confidence\<close> is 98.5, which is neither \<^verbatim>\<open>None\<close> nor a float between 0 and 1.
\<close>

theorem detect_confidence_out_of_range:
  "fst (detect sample_constants
          (mock_env 200 (JObj [(''sourceLanguage'', JStr ''fr_FR''), (''score'', JFloat (197 / 2))]))
          (Str ''Bonjour'') (new_client False)) =
     Inr (One \<lparr>lang = JStr ''fr_FR'', confidence = JFloat (197 / 2)\<rparr>) \<and>
   \<not> unit_interval_or_none (JFloat (197 / 2))"
  unfolding detect_sample_run
  by (simp add: detect_response_def dict_get_def unit_interval_or_none_def)

section \<open>The list forms\<close>

lemma state_after_Nil: "state_after f st [] = st"
  by (simp add: state_after_def)

lemma state_after_Cons: "state_after f st (x # xs) = state_after f (snd (f x st)) xs"
  by (simp add: state_after_def)

lemma for_each_Inr_iff:
  "for_each f xs st = (Inr rs, st') \<longleftrightarrow>
     length rs = length xs \<and> st' = state_after f st xs \<and>
     (\<forall>i<length xs. fst (f (xs ! i) (state_after f st (take i xs))) = Inr (rs ! i))"
proof (induction xs arbitrary: st rs)
  case Nil
  show ?case by (auto simp: state_after_Nil)
next
  case (Cons x xs)
  obtain r0 st1 where fx: "f x st = (r0, st1)" by (cases "f x st")
  show ?case
  proof (cases r0)
    case (Inl e)
    with fx show ?thesis
      by (auto simp: state_after_Nil)
  next
    case (Inr r)
    show ?thesis
    proof (cases rs)
      case Nil
      with fx Inr show ?thesis by (auto split: prod.splits sum.splits)
    next
      case (Cons r' rs')
      have "for_each f (x # xs) st = (Inr (r' # rs'), st') \<longleftrightarrow>
          r' = r \<and> for_each f xs st1 = (Inr rs', st')"
        using fx Inr by (auto split: prod.splits sum.splits)
      also have "\<dots> \<longleftrightarrow> r' = r \<and> length rs' = length xs \<and> st' = state_after f st1 xs \<and>
          (\<forall>i<length xs. fst (f (xs ! i) (state_after f st1 (take i xs))) = Inr (rs' ! i))"
        by (simp add: Cons.IH)
      also have "\<dots> \<longleftrightarrow> length (r' # rs') = length (x # xs) \<and> st' = state_after f st (x # xs) \<and>
          (\<forall>i<length (x # xs).
             fst (f ((x # xs) ! i) (state_after f st (take i (x # xs)))) = Inr ((r' # rs') ! i))"
        using fx Inr
        by (auto simp: All_less_Suc2 state_after_Cons state_after_Nil)
      finally show ?thesis using Cons by simp
    qed
  qed
qed

lemma translate_items_for_each:
  "translate_items C E items dest0 src0 st =
     for_each (\<lambda>item. translate C E item dest0 src0) items st"
  by (induction items arbitrary: st) (simp_all split: prod.splits sum.splits)

lemma detect_items_for_each:
  "detect_items C E items st = for_each (\<lambda>item. detect C E item) items st"
  by (induction items arbitrary: st) (simp_all split: prod.splits sum.splits)

lemma translate_Lst_iff:
  "translate C E (Lst items) dest0 src0 st = (Inr (Many rs), st') \<longleftrightarrow>
     translate_items C E items dest0 src0 st = (Inr rs, st')"
  by (auto split: prod.splits sum.splits)

lemma detect_Lst_iff:
  "detect C E (Lst items) st = (Inr (Many rs), st') \<longleftrightarrow>
     detect_items C E items st = (Inr rs, st')"
  by (auto split: prod.splits sum.splits)

text \<open>
  C4. The list form of translate returns a list \<open>rs\<close> exactly when \<open>rs\<close> is as long as
  the list of items and, for every position, the call of translate on the item at that
  position, started in the state that the calls on the items before it have left, returns
  the element of \<open>rs\<close> at that position; the state it then leaves is the state after the
  calls on all the items, run in order. The same holds for detect. The items of the list
  may be texts or lists again.
\<close>

theorem list_form_sequential:
  "(translate C E (Lst items) dest0 src0 st = (Inr (Many rs), st') \<longleftrightarrow>
      length rs = length items \<and>
      st' = state_after (\<lambda>item. translate C E item dest0 src0) st items \<and>
      (\<forall>i<length items.
         fst (translate C E (items ! i) dest0 src0
                (state_after (\<lambda>item. translate C E item dest0 src0) st (take i items))) =
           Inr (rs ! i))) \<and>
   (detect C E (Lst items) st = (Inr (Many ds), st'') \<longleftrightarrow>
      length ds = length items \<and>
      st'' = state_after (\<lambda>item. detect C E item) st items \<and>
      (\<forall>i<length items.
         fst (detect C E (items ! i) (state_after (\<lambda>item. detect C E item) st (take i items))) =
           Inr (ds ! i)))"
  unfolding translate_Lst_iff detect_Lst_iff translate_items_for_each detect_items_for_each
  by (simp add: for_each_Inr_iff)

lemma lowering_run:
  "fst (translate sample_constants lowering_env (Lst [Str ''A'', Str ''B'', Str ''C''])
          ''fr_FR'' ''auto'' (new_client False)) =
     Inr (Many [One (lowered ''A'' ''a''), One (lowered ''B'' ''b''), One (lowered ''C'' ''c'')])"
  by (simp add: translate_str_def normalize_sample_fr_FR normalize_lang_auto translate_payload_def
      translate_response_def dict_get_def lowering_env_def lowered_def ascii_lower_def ascii_lower_char_def
      run_defs)

theorem list_form_sequential_witness:
  "fst (translate sample_constants lowering_env (Lst [Str ''A'', Str ''B'', Str ''C''])
          ''fr_FR'' ''auto'' (new_client False)) =
     Inr (Many [One (lowered ''A'' ''a''), One (lowered ''B'' ''b''), One (lowered ''C'' ''c'')]) \<and>
   fst (translate sample_constants lowering_env (Str ''B'') ''fr_FR'' ''auto''
          (state_after (\<lambda>item. translate sample_constants lowering_env item ''fr_FR'' ''auto'')
             (new_client False) [Str ''A''])) =
     Inr (One (lowered ''B'' ''b''))"
proof -
  let ?items = "[Str ''A'', Str ''B'', Str ''C'']"
  let ?rs = "[One (lowered ''A'' ''a''), One (lowered ''B'' ''b''), One (lowered ''C'' ''c'')]"
  let ?f = "\<lambda>item. translate sample_constants lowering_env item ''fr_FR'' ''auto''"
  let ?run = "translate sample_constants lowering_env (Lst ?items) ''fr_FR'' ''auto'' (new_client False)"
  have run: "?run = (Inr (Many ?rs), snd ?run)"
    using lowering_run by (cases ?run) (simp del: translate.simps)
  from iffD1 [OF conjunct1 [OF list_form_sequential] run]
  have "\<forall>i<length ?items. fst (?f (?items ! i) (state_after ?f (new_client False) (take i ?items))) =
      Inr (?rs ! i)"
    by (simp del: translate.simps)
  from this [rule_format, of 1]
  have "fst (?f (?items ! 1) (state_after ?f (new_client False) (take 1 ?items))) = Inr (?rs ! 1)"
    by (simp del: translate.simps)
  then have "fst (?f (Str ''B'') (state_after ?f (new_client False) [Str ''A''])) =
      Inr (One (lowered ''B'' ''b''))"
    by (simp del: translate.simps)
  with lowering_run show ?thesis by (simp del: translate.simps)
qed

lemma for_each_Inl_iff:
  "for_each f xs st = (Inl e, st') \<longleftrightarrow>
     (\<exists>i<length xs.
        (\<forall>j<i. \<exists>r. fst (f (xs ! j) (state_after f st (take j xs))) = Inr r) \<and>
        f (xs ! i) (state_after f st (take i xs)) = (Inl e, st'))"
proof (induction xs arbitrary: st)
  case Nil
  show ?case by simp
next
  case (Cons x xs)
  obtain r0 st1 where fx: "f x st = (r0, st1)" by (cases "f x st")
  show ?case
  proof (cases r0)
    case (Inl e0)
    with fx show ?thesis
      by (auto simp: Ex_less_Suc2 All_less_Suc2 state_after_Nil state_after_Cons)
  next
    case (Inr r)
    have "for_each f (x # xs) st = (Inl e, st') \<longleftrightarrow> for_each f xs st1 = (Inl e, st')"
      using fx Inr by (auto split: prod.splits sum.splits)
    also have "\<dots> \<longleftrightarrow> (\<exists>i<length xs.
        (\<forall>j<i. \<exists>r. fst (f (xs ! j) (state_after f st1 (take j xs))) = Inr r) \<and>
        f (xs ! i) (state_after f st1 (take i xs)) = (Inl e, st'))"
      by (rule Cons.IH)
    also have "\<dots> \<longleftrightarrow> (\<exists>i<length (x # xs).
        (\<forall>j<i. \<exists>r. fst (f ((x # xs) ! j) (state_after f st (take j (x # xs)))) = Inr r) \<and>
        f ((x # xs) ! i) (state_after f st (take i (x # xs))) = (Inl e, st'))"
      using fx Inr
      by (simp add: Ex_less_Suc2 All_less_Suc2 state_after_Nil state_after_Cons)
    finally show ?thesis .
  qed
qed

lemma translate_Lst_Inl_iff:
  "translate C E (Lst items) dest0 src0 st = (Inl e, st') \<longleftrightarrow>
     translate_items C E items dest0 src0 st = (Inl e, st')"
  by (auto split: prod.splits sum.splits)

text \<open>
  When the list form of translate raises, the exception is that of the first item whose
  call raises, the calls on the items before it have returned, and no item after it is
  run.
\<close>

lemma list_form_first_failure:
  "translate C E (Lst items) dest0 src0 st = (Inl e, st') \<longleftrightarrow>
     (\<exists>i<length items.
        (\<forall>j<i. \<exists>r. fst (translate C E (items ! j) dest0 src0
           (state_after (\<lambda>item. translate C E item dest0 src0) st (take j items))) = Inr r) \<and>
        translate C E (items ! i) dest0 src0
           (state_after (\<lambda>item. translate C E item dest0 src0) st (take i items)) = (Inl e, st'))"
  unfolding translate_Lst_Inl_iff translate_items_for_each
  by (rule for_each_Inl_iff)

section \<open>Closing and reopening\<close>

lemma length_conns_mark_closed: "length (conns (mark_closed a w)) = length (conns w)"
  by (simp add: mark_closed_def)

lemma sent_mark_closed: "sent (mark_closed a w) = sent w"
  by (simp add: mark_closed_def)

lemma close_returns: "fst (close E st) = Inr ()"
  by (cases st) (simp add: Let_def)

lemma close_translator:
  "fst (snd (close E st)) = (fst st)\<lparr>session := None, connector := None\<rparr>"
  by (cases st) (simp add: Let_def)

lemma sent_session_close: "sent (snd (snd (session_close E s w))) = sent w"
  by (simp add: session_close_def sent_mark_closed split: option.splits)

lemma length_conns_session_close:
  "length (conns (snd (snd (session_close E s w)))) = length (conns w)"
  by (simp add: session_close_def length_conns_mark_closed split: option.splits)

lemma close_world:
  "sent (snd (snd (close E st))) = sent (snd st) \<and>
   length (conns (snd (snd (close E st)))) = length (conns (snd st))"
proof -
  obtain tr w where st: "st = (tr, w)" by (cases st)
  define w1 where "w1 = (case session tr of
                  None \<Rightarrow> w
                | Some s \<Rightarrow>
                    if session_closed w s then w
                    else (case session_close E s w of
                            (Inl e, s', w') \<Rightarrow> w'
                          | (Inr u, s', w') \<Rightarrow> w'))"
  have a: "sent w1 = sent w \<and> length (conns w1) = length (conns w)"
  proof (cases "session tr")
    case None
    then show ?thesis by (simp add: w1_def)
  next
    case (Some s)
    obtain r s' w' where c: "session_close E s w = (r, s', w')"
      by (cases "session_close E s w")
    from sent_session_close [of E s w] length_conns_session_close [of E s w] c
    have "sent w' = sent w \<and> length (conns w') = length (conns w)" by simp
    with Some c show ?thesis by (cases r) (simp_all add: w1_def)
  qed
  have b: "sent (snd (snd (close E st))) = sent w1 \<and>
      length (conns (snd (snd (close E st)))) = length (conns w1)"
    unfolding st
    by (auto simp: Let_def w1_def [symmetric] connector_close_def sent_mark_closed
        length_conns_mark_closed split: option.splits)
  from a b st show ?thesis by simp
qed

lemma close_closed:
  assumes "session tr = None" and "connector tr = None"
  shows "close E (tr, w) = (Inr (), tr, w)"
  using assms by (simp add: Let_def)

lemma close_close: "close E2 (snd (close E1 st)) = (Inr (), snd (close E1 st))"
proof -
  obtain tr w where s: "snd (close E1 st) = (tr, w)" by (cases "snd (close E1 st)")
  then have "tr = (fst st)\<lparr>session := None, connector := None\<rparr>"
    using close_translator [of E1 st] by simp
  then have "session tr = None" and "connector tr = None" by simp_all
  then show ?thesis unfolding s by (rule close_closed)
qed

lemma closed_by_Cons: "closed_by (E1 # Es) st = snd (close E1 st)"
proof (induction Es rule: rev_induct)
  case Nil
  show ?case by (simp add: closed_by_def)
next
  case (snoc E Es)
  have "closed_by (E1 # Es @ [E]) st = snd (close E (closed_by (E1 # Es) st))"
    by (simp add: closed_by_def)
  with snoc show ?case by (simp add: close_close)
qed

lemma ensure_session_recreated:
  assumes "session_missing (tr, w)"
  shows "ensure_session (tr, w) =
     (tr\<lparr> connector := Some (length (conns w)),
          session := Some \<lparr> s_connector = Some (length (conns w)), s_timeout = timeout tr,
                            s_headers = [(''Authorization'', token tr)] \<rparr> \<rparr>,
      w\<lparr>conns := conns w @ [\<lparr>c_kind = TCPConnector (connector_limit tr), c_closed = False\<rparr>]\<rparr>)"
  using assms by (simp add: new_connector_def new_session_def get_headers_def Let_def)

lemma session_missing_closed: "session_missing (snd (close E st))"
proof -
  obtain tr w where c: "snd (close E st) = (tr, w)" by (cases "snd (close E st)")
  then have "tr = (fst st)\<lparr>session := None, connector := None\<rparr>"
    using close_translator [of E st] by simp
  then show ?thesis unfolding c by simp
qed

lemma session_kind_recreated:
  assumes "session_missing st"
  shows "session_kind (ensure_session st) = Some (TCPConnector (connector_limit (fst st)))"
  using assms
  by (cases st)
     (simp add: ensure_session_recreated session_kind_def conn_at_def
        del: ensure_session.simps session_missing.simps)

lemma translate_response_flag:
  "raise_exception tr = raise_exception tr' \<Longrightarrow>
   translate_response tr text0 dest0 src0 src_code status data =
   translate_response tr' text0 dest0 src0 src_code status data"
  by (simp add: translate_response_def split: json.splits)

lemma send_live:
  assumes "session tr = Some s" and "\<not> session_closed w s"
  shows "send E m u p (tr, w) =
     (case remote E (sent w) (the_request tr w s m u p) of
        ConnectionFailed \<Rightarrow> Inl ClientError
      | Response status None \<Rightarrow> Inl JSONDecodeError
      | Response status (Some data) \<Rightarrow> Inr (status, data),
      tr, w\<lparr>sent := sent w @ [the_request tr w s m u p]\<rparr>)"
  using assms by (simp add: Let_def split: http_outcome.splits option.splits)

lemma translate_after_close:
  assumes "normalize_lang (str_lower E) C dest0 = Inr dest_code" and "normalize_lang (str_lower E) C src0 = Inr src_code"
  shows "\<exists>req. sent (snd (snd (translate C E (Str text0) dest0 src0 (snd (close E1 st))))) =
           sent (snd st) @ [req] \<and>
         r_connector req = Some (TCPConnector (connector_limit (fst st))) \<and>
         fst (translate C E (Str text0) dest0 src0 (snd (close E1 st))) =
           (case remote E (sent (snd st)) req of
              ConnectionFailed \<Rightarrow> Inl ClientError
            | Response status None \<Rightarrow> Inl JSONDecodeError
            | Response status (Some data) \<Rightarrow>
                map_sum id One
                  (translate_response (fst st) text0 dest0 src0 src_code status data))"
proof -
  obtain tr w where c: "snd (close E1 st) = (tr, w)" by (cases "snd (close E1 st)")
  have tr: "tr = (fst st)\<lparr>session := None, connector := None\<rparr>"
    using close_translator [of E1 st] c by simp
  have w: "sent w = sent (snd st)"
    using close_world [of E1 st] c by simp
  have m: "session_missing (tr, w)" by (simp add: tr)
  let ?tr' = "tr\<lparr> connector := Some (length (conns w)),
          session := Some \<lparr> s_connector = Some (length (conns w)), s_timeout = timeout tr,
                            s_headers = [(''Authorization'', token tr)] \<rparr> \<rparr>"
  let ?w' = "w\<lparr>conns := conns w @ [\<lparr>c_kind = TCPConnector (connector_limit tr), c_closed = False\<rparr>]\<rparr>"
  let ?s = "\<lparr> s_connector = Some (length (conns w)), s_timeout = timeout tr,
              s_headers = [(''Authorization'', token tr)] \<rparr>"
  let ?req = "the_request ?tr' ?w' ?s POST (TRANSLATE_URL C)
      (translate_payload dest_code text0 src_code)"
  have e: "ensure_session (tr, w) = (?tr', ?w')"
    using m by (rule ensure_session_recreated)
  have s: "send E POST (TRANSLATE_URL C) (translate_payload dest_code text0 src_code) (?tr', ?w') =
     (case remote E (sent ?w') ?req of
        ConnectionFailed \<Rightarrow> Inl ClientError
      | Response status None \<Rightarrow> Inl JSONDecodeError
      | Response status (Some data) \<Rightarrow> Inr (status, data),
      ?tr', ?w'\<lparr>sent := sent ?w' @ [?req]\<rparr>)"
    by (rule send_live) (simp_all add: session_closed_def conn_closed_def conn_at_def)
  have k: "r_connector ?req = Some (TCPConnector (connector_limit (fst st)))"
    by (simp add: the_request_def conn_at_def tr)
  have f: "translate_response ?tr' text0 dest0 src0 src_code status data =
      translate_response (fst st) text0 dest0 src0 src_code status data" for status data
    by (rule translate_response_flag) (simp add: tr)
  have "sent (snd (snd (translate C E (Str text0) dest0 src0 (tr, w)))) = sent (snd st) @ [?req] \<and>
      fst (translate C E (Str text0) dest0 src0 (tr, w)) =
           (case remote E (sent (snd st)) ?req of
              ConnectionFailed \<Rightarrow> Inl ClientError
            | Response status None \<Rightarrow> Inl JSONDecodeError
            | Response status (Some data) \<Rightarrow>
                map_sum id One
                  (translate_response (fst st) text0 dest0 src0 src_code status data))"
    using assms
    by (simp add: translate_str_def e s w f
        del: ensure_session.simps send.simps session_missing.simps
        split: http_outcome.splits option.splits sum.splits)
  with k c show ?thesis by metis
qed

text \<open>
  C5. \<^verbatim>\<open>close()\<close> returns normally in every state and whatever the close calls of the
  library do. A second \<^verbatim>\<open>close()\<close> right after it returns normally too and changes nothing,
  so any number of \<^verbatim>\<open>close()\<close> calls leave the state that one leaves: no session.
  \<^verbatim>\<open>_ensure_session\<close> then installs a live session on a fresh connector, and a translate
  call made after the close, on languages that resolve, hands its request to the transport
  on that session and returns what the answer of the transport determines, as on a client
  that was never closed.
\<close>

theorem close_idempotent_then_usable:
  "fst (close E1 st) = Inr () \<and>
   close E2 (snd (close E1 st)) = (Inr (), snd (close E1 st)) \<and>
   closed_by (E1 # Es) st = snd (close E1 st) \<and>
   session (fst (snd (close E1 st))) = None \<and>
   \<not> session_missing (ensure_session (snd (close E1 st))) \<and>
   session_kind (ensure_session (snd (close E1 st))) =
     Some (TCPConnector (connector_limit (fst st))) \<and>
   (normalize_lang (str_lower E) C dest0 = Inr dest_code \<and> normalize_lang (str_lower E) C src0 = Inr src_code \<longrightarrow>
      (\<exists>req. sent (snd (snd (translate C E (Str text0) dest0 src0 (snd (close E1 st))))) =
           sent (snd st) @ [req] \<and>
         r_connector req = Some (TCPConnector (connector_limit (fst st))) \<and>
         fst (translate C E (Str text0) dest0 src0 (snd (close E1 st))) =
           (case remote E (sent (snd st)) req of
              ConnectionFailed \<Rightarrow> Inl ClientError
            | Response status None \<Rightarrow> Inl JSONDecodeError
            | Response status (Some data) \<Rightarrow>
                map_sum id One
                  (translate_response (fst st) text0 dest0 src0 src_code status data))))"
proof -
  have "session_kind (ensure_session (snd (close E1 st))) =
     Some (TCPConnector (connector_limit (fst st)))"
    using session_kind_recreated [OF session_missing_closed, of E1 st]
    by (simp add: close_translator)
  then show ?thesis
    using translate_after_close [of E C dest0 dest_code src0 src_code text0 E1 st]
    by (simp add: close_returns close_close closed_by_Cons close_translator ensure_session_live
        del: translate.simps session_missing.simps ensure_session.simps)
qed

theorem close_idempotent_then_usable_witness:
  "fst (close failing_close_env (new_client False)) = Inr () \<and>
   fst (close failing_close_env (snd (close failing_close_env (new_client False)))) = Inr () \<and>
   fst (translate sample_constants (mock_env 200 (JObj [(''result'', JStr ''Bonjour'')]))
          (Str ''Hello'') ''fr_FR'' ''auto''
          (snd (close failing_close_env (snd (close failing_close_env (new_client False)))))) =
     Inr (One \<lparr> src = JStr ''auto'', dest = ''fr_FR'', origin = ''Hello'',
                 text_field = JStr ''Bonjour'',
                 extra_data = JObj [(''result'', JStr ''Bonjour'')] \<rparr>)"
proof -
  let ?E = "mock_env 200 (JObj [(''result'', JStr ''Bonjour'')])"
  let ?F = "failing_close_env"
  let ?st = "new_client False"
  note t = close_idempotent_then_usable [of ?F ?st ?F "[]" ?E sample_constants "''fr_FR''"
      "''fr_FR''" "''auto''" "''auto''" "''Hello''"]
  have l: "str_lower ?E = ascii_lower" by (simp add: mock_env_def)
  from t have a: "fst (close ?F ?st) = Inr ()" by (rule conjunct1)
  from t have b: "close ?F (snd (close ?F ?st)) = (Inr (), snd (close ?F ?st))"
    by (simp del: close.simps translate.simps session_missing.simps ensure_session.simps)
  from t l normalize_sample_fr_FR normalize_lang_auto
  have "\<exists>req. fst (translate sample_constants ?E (Str ''Hello'') ''fr_FR'' ''auto'' (snd (close ?F ?st))) =
           (case remote ?E (sent (snd ?st)) req of
              ConnectionFailed \<Rightarrow> Inl ClientError
            | Response status None \<Rightarrow> Inl JSONDecodeError
            | Response status (Some data) \<Rightarrow>
                map_sum id One
                  (translate_response (fst ?st) ''Hello'' ''fr_FR'' ''auto'' ''auto'' status data))"
    by (auto simp del: close.simps translate.simps session_missing.simps ensure_session.simps)
  then have c: "fst (translate sample_constants ?E (Str ''Hello'') ''fr_FR'' ''auto'' (snd (close ?F ?st))) =
     Inr (One \<lparr> src = JStr ''auto'', dest = ''fr_FR'', origin = ''Hello'',
                 text_field = JStr ''Bonjour'',
                 extra_data = JObj [(''result'', JStr ''Bonjour'')] \<rparr>)"
    by (simp add: mock_env_def translate_response_def dict_get_def del: close.simps translate.simps)
  from a b c show ?thesis by (simp del: close.simps translate.simps session_missing.simps ensure_session.simps)
qed

lemma ensure_session_config:
  "token (fst (ensure_session st)) = token (fst st) \<and>
   timeout (fst (ensure_session st)) = timeout (fst st) \<and>
   connector_limit (fst (ensure_session st)) = connector_limit (fst st) \<and>
   proxy (fst (ensure_session st)) = proxy (fst st) \<and>
   proxy_auth (fst (ensure_session st)) = proxy_auth (fst st) \<and>
   proxy_url (fst (ensure_session st)) = proxy_url (fst st) \<and>
   use_proxy_connector (fst (ensure_session st)) = use_proxy_connector (fst st)"
  by (cases st) (simp add: new_connector_def Let_def)

lemma ensure_session_session:
  assumes "session_missing st"
  shows "\<exists>s a. session (fst (ensure_session st)) = Some s \<and> s_connector s = Some a \<and>
           connector (fst (ensure_session st)) = Some a \<and>
           \<not> session_closed (snd (ensure_session st)) s \<and>
           s_timeout s = timeout (fst st) \<and>
           s_headers s = [(''Authorization'', token (fst st))]"
  using assms
  by (cases st)
     (simp add: ensure_session_recreated session_closed_def conn_closed_def conn_at_def
        del: ensure_session.simps session_missing.simps)

lemma install_session_eq:
  "install_session kind tr w =
     (tr\<lparr> connector := Some (length (conns w)),
          session := Some \<lparr> s_connector = Some (length (conns w)), s_timeout = timeout tr,
                            s_headers = [(''Authorization'', token tr)] \<rparr> \<rparr>,
      w\<lparr>conns := conns w @ [\<lparr>c_kind = kind, c_closed = False\<rparr>]\<rparr>)"
  by (simp add: install_session_def new_connector_def new_session_def get_headers_def Let_def)

lemma install_session_kind: "session_kind (install_session kind tr w) = Some kind"
  by (simp add: install_session_eq session_kind_def conn_at_def)

text \<open>
  Once the connector of a freshly installed session has been closed, by whoever holds a
  reference to it, the session counts as closed and the client as having no session.
\<close>

lemma install_session_connector_closed:
  assumes "connector (fst (install_session kind tr w)) = Some a"
  shows "session_missing (fst (install_session kind tr w),
           mark_closed a (snd (install_session kind tr w)))"
  using assms
  by (auto simp: install_session_eq mark_closed_def session_closed_def conn_closed_def
      conn_at_def nth_append)

lemma install_proxy_socks:
  assumes "is_socks p" and "install_proxy E (Some p) auth tr w = (Inr (), st0)"
  shows "st0 = install_session (ProxyConnector p)
           (tr\<lparr>proxy := None, proxy_auth := None, proxy_url := Some p,
               use_proxy_connector := True\<rparr>) w"
  using assms by (auto simp: install_proxy_def Let_def split: if_splits)

lemma install_proxy_http:
  assumes "\<not> is_socks p" and "install_proxy E (Some p) auth tr w = (Inr (), st0)"
  shows "proxy (fst st0) = Some p \<and> \<not> use_proxy_connector (fst st0) \<and>
     session_kind st0 = Some (TCPConnector (connector_limit tr))"
  using assms
  by (auto simp: install_proxy_def install_session_eq session_kind_def conn_at_def Let_def
      split: option.splits sum.splits prod.splits)

lemma init_Inr:
  assumes "init E tok re tmo prx auth limit w = Inr st0"
  shows "\<exists>tr. connector_limit tr = limit \<and> install_proxy E prx auth tr w = (Inr (), st0)"
proof -
  let ?tr = "\<lparr> token = (if startswith tok ''Bearer '' then tok else ''Bearer '' @ tok),
               raise_exception = re,
               timeout = (case tmo of None \<Rightarrow> ClientTimeout 30 | Some t \<Rightarrow> t),
               connector_limit = limit,
               proxy = None, proxy_auth = None, proxy_url = prx, use_proxy_connector = False,
               connector = None, session = None \<rparr>"
  from assms have "install_proxy E prx auth ?tr w = (Inr (), st0)"
    by (auto simp: init_def split: prod.splits sum.splits)
  moreover have "connector_limit ?tr = limit" by simp
  ultimately show ?thesis by blast
qed

lemma change_proxy_Inr:
  assumes "change_proxy E prx auth st = (Inr (), st1)"
  shows "\<exists>w2. install_proxy E prx auth ((fst st)\<lparr>session := None, connector := None\<rparr>) w2 =
           (Inr (), st1)"
  using assms
  by (cases st) (auto simp: Let_def split: option.splits if_splits prod.splits sum.splits)

lemma reopened:
  "session_kind (ensure_session (snd (close E st))) = Some (TCPConnector (connector_limit (fst st))) \<and>
   proxy (fst (ensure_session (snd (close E st)))) = proxy (fst st) \<and>
   proxy_auth (fst (ensure_session (snd (close E st)))) = proxy_auth (fst st) \<and>
   proxy_url (fst (ensure_session (snd (close E st)))) = proxy_url (fst st) \<and>
   use_proxy_connector (fst (ensure_session (snd (close E st)))) = use_proxy_connector (fst st)"
  using session_kind_recreated [OF session_missing_closed, of E st]
  by (simp add: ensure_session_config close_translator)

text \<open>
  What holds of a client on a SOCKS connector, however it came to be.
\<close>

lemma socks_session_lost:
  assumes "st0 = install_session (ProxyConnector p)
           (tr\<lparr>proxy := None, proxy_auth := None, proxy_url := Some p,
               use_proxy_connector := True\<rparr>) w"
  shows "session_kind st0 = Some (ProxyConnector p) \<and>
     session_kind (ensure_session (snd (close E st0))) = Some (TCPConnector (connector_limit tr)) \<and>
     use_proxy_connector (fst (ensure_session (snd (close E st0)))) \<and>
     proxy (fst (ensure_session (snd (close E st0)))) = None \<and>
     (\<forall>a. connector (fst st0) = Some a \<longrightarrow>
        session_kind (ensure_session (fst st0, mark_closed a (snd st0))) =
          Some (TCPConnector (connector_limit tr)))"
proof -
  have k: "session_kind st0 = Some (ProxyConnector p)"
    unfolding assms by (rule install_session_kind)
  have f: "connector_limit (fst st0) = connector_limit tr \<and> use_proxy_connector (fst st0) \<and>
      proxy (fst st0) = None"
    unfolding assms by (simp add: install_session_eq)
  have c: "session_kind (ensure_session (fst st0, mark_closed a (snd st0))) =
          Some (TCPConnector (connector_limit tr))" if "connector (fst st0) = Some a" for a
  proof -
    from that have "session_missing (fst st0, mark_closed a (snd st0))"
      unfolding assms by (rule install_session_connector_closed)
    from session_kind_recreated [OF this] f show ?thesis by simp
  qed
  from k f c reopened [of E st0] show ?thesis by simp
qed

text \<open>
  C10. When the client has no session or a closed one, \<^verbatim>\<open>_ensure_session\<close> builds the new
  session on a TCP connector with the client's connection limit, with the client's timeout
  and its Authorization header, and leaves the proxy attributes as they are; after
  \<^verbatim>\<open>close()\<close> the client has no session, so that the next operation recreates it. Hence
  a client that was built with a \<^verbatim>\<open>socks4\<close> or \<^verbatim>\<open>socks5\<close> proxy, or switched to one
  by a \<^verbatim>\<open>change_proxy\<close> that returned, has a session on a SOCKS connector, and after
  \<^verbatim>\<open>close()\<close> and recreation, or after its connector was closed and the session was
  recreated, a session on a plain TCP connector, although \<^verbatim>\<open>_use_proxy_connector\<close> is
  still true and no per-request proxy is set; a client that was built with an HTTP proxy
  keeps its per-request proxy and proxy credentials through \<^verbatim>\<open>close()\<close> and recreation.
\<close>

theorem recreated_session_is_plain_tcp:
  "(session_missing st \<longrightarrow>
      session_kind (ensure_session st) = Some (TCPConnector (connector_limit (fst st))) \<and>
      (\<exists>s a. session (fst (ensure_session st)) = Some s \<and> s_connector s = Some a \<and>
           connector (fst (ensure_session st)) = Some a \<and>
           \<not> session_closed (snd (ensure_session st)) s \<and>
           s_timeout s = timeout (fst st) \<and>
           s_headers s = [(''Authorization'', token (fst st))]) \<and>
      proxy (fst (ensure_session st)) = proxy (fst st) \<and>
      proxy_auth (fst (ensure_session st)) = proxy_auth (fst st) \<and>
      proxy_url (fst (ensure_session st)) = proxy_url (fst st) \<and>
      use_proxy_connector (fst (ensure_session st)) = use_proxy_connector (fst st)) \<and>
   session_missing (snd (close E st)) \<and>
   (is_socks p \<and> init E0 tok re tmo (Some p) auth limit w = Inr st0 \<longrightarrow>
      session_kind st0 = Some (ProxyConnector p) \<and>
      session_kind (ensure_session (snd (close E st0))) = Some (TCPConnector limit) \<and>
      use_proxy_connector (fst (ensure_session (snd (close E st0)))) \<and>
      proxy (fst (ensure_session (snd (close E st0)))) = None \<and>
      (\<forall>a. connector (fst st0) = Some a \<longrightarrow>
         session_kind (ensure_session (fst st0, mark_closed a (snd st0))) =
           Some (TCPConnector limit))) \<and>
   (is_socks p \<and> change_proxy E' (Some p) auth st = (Inr (), st1) \<longrightarrow>
      session_kind st1 = Some (ProxyConnector p) \<and>
      session_kind (ensure_session (snd (close E st1))) =
        Some (TCPConnector (connector_limit (fst st))) \<and>
      use_proxy_connector (fst (ensure_session (snd (close E st1)))) \<and>
      proxy (fst (ensure_session (snd (close E st1)))) = None \<and>
      (\<forall>a. connector (fst st1) = Some a \<longrightarrow>
         session_kind (ensure_session (fst st1, mark_closed a (snd st1))) =
           Some (TCPConnector (connector_limit (fst st))))) \<and>
   (\<not> is_socks p \<and> init E0 tok re tmo (Some p) auth limit w = Inr st0 \<longrightarrow>
      proxy (fst st0) = Some p \<and>
      proxy (fst (ensure_session (snd (close E st0)))) = Some p \<and>
      proxy_auth (fst (ensure_session (snd (close E st0)))) = proxy_auth (fst st0))"
proof (intro conjI impI)
  assume m: "session_missing st"
  from session_kind_recreated [OF m]
  show "session_kind (ensure_session st) = Some (TCPConnector (connector_limit (fst st)))" .
  from ensure_session_session [OF m]
  show "\<exists>s a. session (fst (ensure_session st)) = Some s \<and> s_connector s = Some a \<and>
           connector (fst (ensure_session st)) = Some a \<and>
           \<not> session_closed (snd (ensure_session st)) s \<and>
           s_timeout s = timeout (fst st) \<and>
           s_headers s = [(''Authorization'', token (fst st))]" .
next
  show "session_missing (snd (close E st))" by (rule session_missing_closed)
next
  assume a: "is_socks p \<and> init E0 tok re tmo (Some p) auth limit w = Inr st0"
  then obtain tr where l: "connector_limit tr = limit"
    and i: "install_proxy E0 (Some p) auth tr w = (Inr (), st0)"
    using init_Inr by blast
  from a have p: "is_socks p" by simp
  note s = socks_session_lost [OF install_proxy_socks [OF p i], of E, unfolded l]
  from s show "session_kind st0 = Some (ProxyConnector p)"
    and "session_kind (ensure_session (snd (close E st0))) = Some (TCPConnector limit)"
    and "use_proxy_connector (fst (ensure_session (snd (close E st0))))"
    and "proxy (fst (ensure_session (snd (close E st0)))) = None"
    and "\<forall>a. connector (fst st0) = Some a \<longrightarrow>
         session_kind (ensure_session (fst st0, mark_closed a (snd st0))) =
           Some (TCPConnector limit)"
    by blast+
next
  assume a: "is_socks p \<and> change_proxy E' (Some p) auth st = (Inr (), st1)"
  then obtain w2 where
    i: "install_proxy E' (Some p) auth ((fst st)\<lparr>session := None, connector := None\<rparr>) w2 =
          (Inr (), st1)"
    using change_proxy_Inr by blast
  from a have p: "is_socks p" by simp
  have l: "connector_limit ((fst st)\<lparr>session := None, connector := None\<rparr>) =
      connector_limit (fst st)" by simp
  note s = socks_session_lost [OF install_proxy_socks [OF p i], of E, unfolded l]
  from s show "session_kind st1 = Some (ProxyConnector p)"
    and "session_kind (ensure_session (snd (close E st1))) =
        Some (TCPConnector (connector_limit (fst st)))"
    and "use_proxy_connector (fst (ensure_session (snd (close E st1))))"
    and "proxy (fst (ensure_session (snd (close E st1)))) = None"
    and "\<forall>a. connector (fst st1) = Some a \<longrightarrow>
         session_kind (ensure_session (fst st1, mark_closed a (snd st1))) =
           Some (TCPConnector (connector_limit (fst st)))"
    by blast+
next
  assume a: "\<not> is_socks p \<and> init E0 tok re tmo (Some p) auth limit w = Inr st0"
  then obtain tr where i: "install_proxy E0 (Some p) auth tr w = (Inr (), st0)"
    using init_Inr by blast
  from a have n: "\<not> is_socks p" by simp
  from install_proxy_http [OF n i] have x: "proxy (fst st0) = Some p"
    by simp
  then show "proxy (fst st0) = Some p" .
  from x reopened [of E st0]
  show "proxy (fst (ensure_session (snd (close E st0)))) = Some p"
    and "proxy_auth (fst (ensure_session (snd (close E st0)))) = proxy_auth (fst st0)"
    by simp_all
qed (simp_all add: ensure_session_config)

lemma init_socks_client:
  "init E ''token'' False None (Some ''socks5://foo.bar:1080'') None 100 empty_world =
     (if from_url_raises E ''socks5://foo.bar:1080''
      then Inl (ValueError ''socks5://foo.bar:1080'') else Inr socks_client)"
  by (simp add: init_def install_proxy_def install_session_eq is_socks_def startswith_def
      empty_world_def socks_client_def)

lemma init_http_proxy_client:
  "init E ''token'' False None (Some ''https://foo.bar:8080'') (Some (''user'', ''secret''))
     100 empty_world = Inr http_proxy_client"
  by (simp add: init_def install_proxy_def install_session_eq is_socks_def startswith_def
      make_basic_auth_def empty_world_def http_proxy_client_def)

lemma change_proxy_new_client:
  "fst (change_proxy (mock_env status data) (Some ''socks5://foo.bar:1080'') None
          (new_client False)) = Inr ()"
  by (simp add: session_close_def connector_close_def mark_closed_def install_proxy_def
      is_socks_def startswith_def run_defs)

theorem recreated_session_is_plain_tcp_witness:
  "is_socks ''socks5://foo.bar:1080'' \<and>
   init (mock_env 200 JNull) ''token'' False None (Some ''socks5://foo.bar:1080'') None 100
     empty_world = Inr socks_client \<and>
   session_kind socks_client = Some (ProxyConnector ''socks5://foo.bar:1080'') \<and>
   session_missing (snd (close failing_close_env socks_client)) \<and>
   session_kind (ensure_session (snd (close failing_close_env socks_client))) =
     Some (TCPConnector 100) \<and>
   use_proxy_connector (fst (ensure_session (snd (close failing_close_env socks_client)))) \<and>
   connector (fst socks_client) = Some 0 \<and>
   session_kind (ensure_session (fst socks_client, mark_closed 0 (snd socks_client))) =
     Some (TCPConnector 100) \<and>
   session_kind (snd (change_proxy (mock_env 200 JNull) (Some ''socks5://foo.bar:1080'') None
       (new_client False))) = Some (ProxyConnector ''socks5://foo.bar:1080'') \<and>
   session_kind (ensure_session (snd (close failing_close_env
       (snd (change_proxy (mock_env 200 JNull) (Some ''socks5://foo.bar:1080'') None
          (new_client False)))))) = Some (TCPConnector 100) \<and>
   \<not> is_socks ''https://foo.bar:8080'' \<and>
   proxy (fst (ensure_session (snd (close failing_close_env http_proxy_client)))) =
     Some ''https://foo.bar:8080'' \<and>
   proxy_auth (fst (ensure_session (snd (close failing_close_env http_proxy_client)))) =
     Some (BasicAuth ''user'' ''secret'')"
proof -
  let ?F = failing_close_env
  let ?M = "mock_env 200 JNull"
  let ?u = "''socks5://foo.bar:1080''"
  let ?h = "''https://foo.bar:8080''"
  let ?c = "change_proxy ?M (Some ?u) None (new_client False)"
  have s: "is_socks ?u"
    by (simp add: is_socks_def startswith_def)
  have h: "\<not> is_socks ?h"
    by (simp add: is_socks_def startswith_def)
  have i: "init ?M ''token'' False None (Some ?u) None 100 empty_world = Inr socks_client"
    by (simp add: init_socks_client mock_env_def)
  have j: "init ?M ''token'' False None (Some ?h) (Some (''user'', ''secret'')) 100 empty_world =
      Inr http_proxy_client"
    by (rule init_http_proxy_client)
  have c: "?c = (Inr (), snd ?c)"
    using change_proxy_new_client [of 200 JNull] by (cases ?c) (simp del: change_proxy.simps)
  have k: "connector (fst socks_client) = Some 0"
    by (simp add: socks_client_def)
  have l: "connector_limit (fst (new_client False)) = 100"
    by (simp add: new_client_def)
  note t = recreated_session_is_plain_tcp [of socks_client ?F ?u ?M "''token''" False None None
      100 empty_world socks_client ?M "snd ?c"]
  from t have m: "session_missing (snd (close ?F socks_client))"
    by (simp del: close.simps ensure_session.simps session_missing.simps)
  from mp [OF conjunct1 [OF conjunct2 [OF conjunct2 [OF t]]] conjI [OF s i]] k
  have a: "session_kind socks_client = Some (ProxyConnector ?u) \<and>
      session_kind (ensure_session (snd (close ?F socks_client))) = Some (TCPConnector 100) \<and>
      use_proxy_connector (fst (ensure_session (snd (close ?F socks_client)))) \<and>
      session_kind (ensure_session (fst socks_client, mark_closed 0 (snd socks_client))) =
        Some (TCPConnector 100)"
    by (simp del: close.simps ensure_session.simps session_missing.simps)
  note t2 = recreated_session_is_plain_tcp [of "new_client False" ?F ?u ?M "''token''" False None
      None 100 empty_world socks_client ?M "snd ?c"]
  from mp [OF conjunct1 [OF conjunct2 [OF conjunct2 [OF conjunct2 [OF t2]]]] conjI [OF s c]] l
  have b: "session_kind (snd ?c) = Some (ProxyConnector ?u) \<and>
      session_kind (ensure_session (snd (close ?F (snd ?c)))) = Some (TCPConnector 100)"
    by (simp del: close.simps ensure_session.simps session_missing.simps change_proxy.simps)
  note t3 = recreated_session_is_plain_tcp [of _ ?F ?h ?M "''token''" False None
      "Some (''user'', ''secret'')" 100 empty_world http_proxy_client]
  from mp [OF conjunct2 [OF conjunct2 [OF conjunct2 [OF conjunct2 [OF t3]]]] conjI [OF h j]]
  have d: "proxy (fst (ensure_session (snd (close ?F http_proxy_client)))) = Some ?h \<and>
      proxy_auth (fst (ensure_session (snd (close ?F http_proxy_client)))) =
        proxy_auth (fst http_proxy_client)"
    by (simp del: close.simps ensure_session.simps session_missing.simps)
  have e: "proxy_auth (fst http_proxy_client) = Some (BasicAuth ''user'' ''secret'')"
    by (simp add: http_proxy_client_def)
  from s h i m a b d e k show ?thesis
    by (simp del: close.simps ensure_session.simps session_missing.simps change_proxy.simps)
qed

text \<open>
  The constructor and \<^verbatim>\<open>change_proxy\<close> raise where the libraries do: on a SOCKS URL that
  \<^verbatim>\<open>ProxyConnector.from_url\<close> refuses, and on proxy credentials whose login contains a
  colon. \<^verbatim>\<open>change_proxy\<close> has then already dropped the old session.
\<close>

lemma init_raises:
  "(is_socks p \<and> from_url_raises E p \<longrightarrow>
      init E tok re tmo (Some p) auth limit w = Inl (ValueError p)) \<and>
   (\<not> is_socks p \<and> CHR '':'' \<in> set login \<longrightarrow>
      init E tok re tmo (Some p) (Some (login, password)) limit w = Inl (ValueError login))"
  by (simp add: init_def install_proxy_def make_basic_auth_def Let_def)

lemma change_proxy_raises:
  assumes "is_socks p" and "from_url_raises E p"
    and "\<not> session_close_raises E" and "\<not> connector_close_raises E"
  shows "fst (change_proxy E (Some p) auth st) = Inl (ValueError p) \<and>
     session (fst (snd (change_proxy E (Some p) auth st))) = None \<and>
     connector (fst (snd (change_proxy E (Some p) auth st))) = None"
  using assms
  by (cases st)
     (auto simp: session_close_def connector_close_def install_proxy_def Let_def
        split: option.splits)

end
